theory Spec2Isabelle
  imports Main "HOL-Library.AList"
begin

section \<open>JavaScript values and objects\<close>

text \<open>
  The runner and the front service are TypeScript.  The functions verified here do not
  compute with Numbers: they test them for truth and turn them into strings.  A Number is
  therefore held as the string that \<^verbatim>\<open>Number.prototype.toString\<close> gives for it: \<open>JNum ''256''\<close>,
  \<open>JNum ''-1''\<close>, \<open>JNum ''1e+21''\<close>, \<open>JNum ''NaN''\<close>.
\<close>

datatype jsval = JUndefined | JNull | JBool bool | JNum string | JStr string

text \<open>
  A plain object whose properties hold primitive values, as the parsers of the runner
  build them: its own enumerable string-keyed properties, in insertion order, each key
  once (no key is an array index, which would come first).
\<close>

type_synonym jsobject = "(string \<times> jsval) list"

text \<open>
  The string that \<^verbatim>\<open>String(v)\<close> gives for a primitive value, which is also the property
  key that \<^verbatim>\<open>obj[v]\<close> reads.
\<close>

fun toString :: "jsval \<Rightarrow> string" where
  "toString JUndefined = ''undefined''"
| "toString JNull = ''null''"
| "toString (JBool b) = (if b then ''true'' else ''false'')"
| "toString (JNum rendering) = rendering"
| "toString (JStr s) = s"

text \<open>
  What is thrown apart from an \<^verbatim>\<open>AppError\<close>: an \<^verbatim>\<open>Error\<close> with its message, or a \<^verbatim>\<open>TypeError\<close>
  of the engine.
\<close>

datatype JsError = Error string | TypeError

text \<open>
  A value as \<^verbatim>\<open>JSON.parse\<close> builds it: a primitive, an array, or an object with its own
  properties in the order in which \<^verbatim>\<open>Object.entries\<close> lists them.  The execution arguments
  of a submission are such an object.
\<close>

datatype jsonValue =
    JPrim jsval
  | JArr "jsonValue list"
  | JObj "(string \<times> jsonValue) list"

type_synonym jsonObject = "(string \<times> jsonValue) list"

text \<open>\<^verbatim>\<open>Array.prototype.join\<close> on an array of strings.\<close>

fun join :: "string \<Rightarrow> string list \<Rightarrow> string" where
  "join sep [] = []"
| "join sep [x] = x"
| "join sep (x # y # ys) = x @ sep @ join sep (y # ys)"

text \<open>
  The results of a \<^verbatim>\<open>map\<close> whose callback may throw: the callback runs on the elements in
  order, and the first throw ends the \<^verbatim>\<open>map\<close>.
\<close>

fun collect :: "('e + 'a) list \<Rightarrow> 'e + 'a list" where
  "collect [] = Inr []"
| "collect (Inl err # rest) = Inl err"
| "collect (Inr x # rest) =
     (case collect rest of Inl err \<Rightarrow> Inl err | Inr xs \<Rightarrow> Inr (x # xs))"

text \<open>
  The string a template literal \<^verbatim>\<open>`${v}`\<close> puts in place of \<open>v\<close>.  An array is its
  elements joined by commas, with nothing for \<^verbatim>\<open>null\<close> and \<^verbatim>\<open>undefined\<close>.  An object is
  \<^verbatim>\<open>[object Object]\<close>, by \<^verbatim>\<open>Object.prototype.toString\<close>, unless it has a property
  \<^verbatim>\<open>toString\<close> of its own: the value of that property is no function, \<^verbatim>\<open>valueOf\<close> does not
  give a primitive either, and the conversion throws a \<^verbatim>\<open>TypeError\<close>.
\<close>

fun templateLiteral :: "jsonValue \<Rightarrow> JsError + string" where
  "templateLiteral (JPrim v) = Inr (toString v)"
| "templateLiteral (JArr elements) =
     (case collect (map (\<lambda>element. case element of
                                        JPrim JUndefined \<Rightarrow> Inr []
                                      | JPrim JNull \<Rightarrow> Inr []
                                      | _ \<Rightarrow> templateLiteral element) elements) of
        Inl err \<Rightarrow> Inl err
      | Inr strings \<Rightarrow> Inr (join '','' strings))"
| "templateLiteral (JObj properties) =
     (if ''toString'' \<in> fst ` set properties then Inl TypeError
      else Inr ''[object Object]'')"

text \<open>The decimal numeral of a natural number.\<close>

fun showNat :: "nat \<Rightarrow> string" where
  "showNat n =
     (if n < 10 then [''0123456789'' ! n]
      else showNat (n div 10) @ [''0123456789'' ! (n mod 10)])"

declare showNat.simps [simp del]

section \<open>forgeUtils.ts: the test execution command\<close>

text \<open>
  Modelled from the spec: the enum \<^verbatim>\<open>ForgeTestExecutionArgument\<close> is declared outside the
  files at hand; its values are the closed set of whitelisted execution arguments the
  specification lists.  \<^verbatim>\<open>VALID_TEST_EXECUTION_ARGUMENTS\<close> is
  \<^verbatim>\<open>Object.values(ForgeTestExecutionArgument).map((val) => val.toString())\<close>.
\<close>

definition VALID_TEST_EXECUTION_ARGUMENTS :: "string list" where
  "VALID_TEST_EXECUTION_ARGUMENTS =
     [''matchContract'', ''matchTest'', ''matchPath'',
      ''noMatchContract'', ''noMatchTest'', ''noMatchPath'',
      ''fuzzRuns'', ''fuzzSeed'']"

text \<open>The character classes \<^verbatim>\<open>[a-z]\<close> and \<^verbatim>\<open>[A-Z]\<close> of the regular expression.\<close>

definition isLowerAZ :: "char \<Rightarrow> bool" where
  "isLowerAZ c = (c \<in> set ''abcdefghijklmnopqrstuvwxyz'')"

definition isUpperAZ :: "char \<Rightarrow> bool" where
  "isUpperAZ c = (c \<in> set ''ABCDEFGHIJKLMNOPQRSTUVWXYZ'')"

text \<open>
  \<^verbatim>\<open>input.replace(/([a-z])([A-Z])/g, '$1-$2')\<close>: the matches are found from left to right
  and do not overlap; a match consumes both of its characters.
\<close>

fun replaceCamelBoundaries :: "string \<Rightarrow> string" where
  "replaceCamelBoundaries (a # b # rest) =
     (if isLowerAZ a \<and> isUpperAZ b
      then a # CHR ''-'' # b # replaceCamelBoundaries rest
      else a # replaceCamelBoundaries (b # rest))"
| "replaceCamelBoundaries s = s"

text \<open>
  \<^verbatim>\<open>String.prototype.toLowerCase\<close> on the letters A to Z.  Only argument names that passed
  the whitelist filter reach it, and those are made of these letters.
\<close>

definition toLowerChar :: "char \<Rightarrow> char" where
  "toLowerChar c =
     (case map_of (zip ''ABCDEFGHIJKLMNOPQRSTUVWXYZ'' ''abcdefghijklmnopqrstuvwxyz'') c of
        Some l \<Rightarrow> l
      | None \<Rightarrow> c)"

definition toLowerCase :: "string \<Rightarrow> string" where
  "toLowerCase s = map toLowerChar s"

definition convertCamelToExecArg :: "string \<Rightarrow> string" where
  "convertCamelToExecArg input = ''--'' @ toLowerCase (replaceCamelBoundaries input)"

text \<open>
  The \<^verbatim>\<open>.filter\<close> step of \<^verbatim>\<open>convertTestExecutionArgsToString\<close>: the entries whose name is
  in \<^verbatim>\<open>VALID_TEST_EXECUTION_ARGUMENTS\<close>.  The values are not looked at.
\<close>

definition validEntries :: "(string \<times> 'v) list \<Rightarrow> (string \<times> 'v) list" where
  "validEntries entries =
     filter (\<lambda>(argumentName, argumentValue).
       argumentName \<in> set VALID_TEST_EXECUTION_ARGUMENTS) entries"

text \<open>
  The callback of the \<^verbatim>\<open>.map\<close> step: one entry as
  \<^verbatim>\<open>`${convertCamelToExecArg(name)} ${value}`\<close>, or the \<^verbatim>\<open>TypeError\<close> that the conversion of
  the value throws.
\<close>

definition renderEntry :: "string \<times> jsonValue \<Rightarrow> JsError + string" where
  "renderEntry e =
     (case templateLiteral (snd e) of
        Inl err \<Rightarrow> Inl err
      | Inr text \<Rightarrow> Inr (convertCamelToExecArg (fst e) @ '' '' @ text))"

text \<open>
  The argument is \<^verbatim>\<open>object | undefined\<close>: \<open>None\<close> is \<^verbatim>\<open>undefined\<close>, which is falsy; every
  object is truthy, the empty one too.
\<close>

definition convertTestExecutionArgsToString :: "jsonObject option \<Rightarrow> JsError + string" where
  "convertTestExecutionArgsToString executionArguments =
     (case executionArguments of
        Some obj \<Rightarrow>
          (case collect (map renderEntry (validEntries obj)) of
             Inl err \<Rightarrow> Inl err
           | Inr rendered \<Rightarrow> Inr (join '' '' rendered))
      | None \<Rightarrow> Inr [])"

text \<open>
  \<^verbatim>\<open>Constants.FORGE_CMD_COMPARE_SNAPSHOTS\<close> is declared outside the files at hand and is a
  parameter here.  The empty string is the only falsy string.
\<close>

definition getTestExecutionCommand :: "string \<Rightarrow> jsonObject option \<Rightarrow> JsError + string" where
  "getTestExecutionCommand FORGE_CMD_COMPARE_SNAPSHOTS execArgs =
     (case convertTestExecutionArgsToString execArgs of
        Inl err \<Rightarrow> Inl err
      | Inr executionArgsString \<Rightarrow>
          Inr (if executionArgsString \<noteq> []
               then FORGE_CMD_COMPARE_SNAPSHOTS @ '' '' @ executionArgsString
               else FORGE_CMD_COMPARE_SNAPSHOTS))"

section \<open>The front service: errors and HTTP status codes\<close>

text \<open>
  \<^verbatim>\<open>AppError\<close> is built as \<^verbatim>\<open>new AppError(statusCode, message)\<close>; \<^verbatim>\<open>sendErrorResponse\<close> reads
  its \<^verbatim>\<open>statusCode\<close>.  The status codes are the ones of \<^verbatim>\<open>HttpStatusCode\<close>.
\<close>

datatype AppError = AppError (statusCode: nat) (message: string)

definition BadRequest :: nat where
  "BadRequest = 400"

definition NotFound :: nat where
  "NotFound = 404"

definition InternalServerError :: nat where
  "InternalServerError = 500"

text \<open>
  The message of what was thrown.  The message of a \<^verbatim>\<open>TypeError\<close> is the engine's; the
  only one that reaches \<^verbatim>\<open>sendErrorResponse\<close> here is the one for a property read on
  \<^verbatim>\<open>undefined\<close>, shortened.
\<close>

definition errorMessage :: "JsError \<Rightarrow> string" where
  "errorMessage err =
     (case err of
        Error text \<Rightarrow> text
      | TypeError \<Rightarrow> ''Cannot read properties of undefined'')"

section \<open>router-utils.ts of the front service\<close>

text \<open>
  A request as \<^verbatim>\<open>getRequestFile\<close> sees it: the file that the upload middleware attached, if
  any, and in it the buffer, if any.  A \<^verbatim>\<open>Buffer\<close> is an object and so truthy, the empty one
  too.
\<close>

record RequestFile =
  originalname :: string
  buffer :: "nat list option"

record Request =
  "file" :: "RequestFile option"

text \<open>
  \<^verbatim>\<open>errorUtils.handleError\<close> is outside the files at hand and is a parameter: it is given what
  was caught, a message and a status code, and returns the \<^verbatim>\<open>AppError\<close> to throw.  Reading
  \<^verbatim>\<open>req.file!.buffer\<close> when there is no file throws a \<^verbatim>\<open>TypeError\<close>, which the \<^verbatim>\<open>catch\<close> block
  catches like the \<^verbatim>\<open>Error\<close> for a missing buffer.
\<close>

definition getRequestFile ::
  "(JsError \<Rightarrow> string \<Rightarrow> nat \<Rightarrow> AppError) \<Rightarrow> Request \<Rightarrow> AppError + RequestFile" where
  "getRequestFile handleError req =
     (case (case file req of
              None \<Rightarrow> Inl TypeError
            | Some requestFile \<Rightarrow>
                (case buffer requestFile of
                   None \<Rightarrow> Inl (Error ''Cannot read the buffer.'')
                 | Some bytes \<Rightarrow> Inr requestFile)) of
        Inr requestFile \<Rightarrow> Inr requestFile
      | Inl err \<Rightarrow>
          Inl (handleError err ''An error occurred while reading the file buffer.'' BadRequest))"

text \<open>
  \<^verbatim>\<open>sendErrorResponse\<close>: the status and the body of the response for what a handler threw,
  \<open>Inr\<close> for an \<^verbatim>\<open>AppError\<close> and \<open>Inl\<close> for anything else.
\<close>

definition sendErrorResponse :: "JsError + AppError \<Rightarrow> nat \<times> AppError" where
  "sendErrorResponse err =
     (let httpErr = (case err of
                       Inr appError \<Rightarrow> appError
                     | Inl other \<Rightarrow> AppError InternalServerError (errorMessage other))
      in (statusCode httpErr, httpErr))"

section \<open>executionApi.ts: executing a submission\<close>

text \<open>
  Modelled from the spec: the enum \<^verbatim>\<open>ContainerExecutionStatus\<close> is declared outside the files
  at hand; the specification names these statuses of an execution.  \<^verbatim>\<open>executeSubmission\<close>
  itself names \<^verbatim>\<open>SUCCESS\<close>.
\<close>

datatype ContainerExecutionStatus = SUCCESS | APPLICATION_ERROR | TIMEOUT | INTERNAL

text \<open>The field of \<^verbatim>\<open>ContainerExecutionResponse\<close> that \<^verbatim>\<open>executeSubmission\<close> reads.\<close>

record ContainerExecutionResponse =
  status :: ContainerExecutionStatus

text \<open>
  The configuration of a project: the timeout is a Number, held by its string (see
  \<open>JNum\<close>), and the execution arguments are an object of \<^verbatim>\<open>JSON.parse\<close>.
\<close>

record IProjectConfig =
  containerTimeout :: "string option"
  testExecutionArguments :: "jsonObject option"

text \<open>
  \<^verbatim>\<open>TestRunnerApiEndpointConfig\<close>, \<^verbatim>\<open>apiFormDataUtils.sendFormData\<close> and
  \<^verbatim>\<open>apiErrorUtils.handleContainerError\<close> are outside the files at hand and are parameters:
  the URL of the endpoint for a project, the outcome of the exchange with the runner
  (\<open>Inl\<close> for what it throws) for a URL, a file and the additional form data, and the
  error made from a response.  \<^verbatim>\<open>config?.containerTimeout || ''\<close> is the empty string for a
  missing timeout and for the falsy Numbers, zero and \<^verbatim>\<open>NaN\<close>.
\<close>

definition executeSubmission ::
  "(string \<Rightarrow> string) \<Rightarrow>
   (string \<Rightarrow> 'f \<Rightarrow> jsonObject option \<Rightarrow> 'e + 'r ContainerExecutionResponse_scheme) \<Rightarrow>
   ('r ContainerExecutionResponse_scheme \<Rightarrow> 'e) \<Rightarrow>
   string \<Rightarrow> 'f \<Rightarrow> IProjectConfig option \<Rightarrow> 'e + 'r ContainerExecutionResponse_scheme" where
  "executeSubmission CONFIG_TEST_EXECUTION sendFormData handleContainerError
       projectName requestFile config =
     (let url = CONFIG_TEST_EXECUTION projectName @ ''?containerTimeout=''
                  @ (case config of
                       None \<Rightarrow> []
                     | Some c \<Rightarrow>
                         (case containerTimeout c of
                            None \<Rightarrow> []
                          | Some seconds \<Rightarrow>
                              if seconds = ''0'' \<or> seconds = ''NaN'' then []
                              else toString (JNum seconds)));
          execArgs = (case config of None \<Rightarrow> None | Some c \<Rightarrow> testExecutionArguments c)
      in case sendFormData url requestFile execArgs of
           Inl err \<Rightarrow> Inl err
         | Inr submissionExecutionResponse \<Rightarrow>
             if status submissionExecutionResponse \<noteq> SUCCESS
             then Inl (handleContainerError submissionExecutionResponse)
             else Inr submissionExecutionResponse)"

section \<open>The message request service of the front service\<close>

text \<open>
  The fields of a message request that \<^verbatim>\<open>updateMessageRequest\<close> assigns, and its \<^verbatim>\<open>_id\<close>.
  A field that holds \<^verbatim>\<open>undefined\<close> is \<open>None\<close>.  \<open>'p\<close> is the type of the payloads
  (\<^verbatim>\<open>ContainerExecutionResponse | AppError | object\<close>).
\<close>

record 'p MessageRequest =
  messageRequestId :: string
  associatedDocumentId :: "string option"
  associatedDocumentType :: "string option"
  startingPositionInQueue :: "int option"
  completed :: bool
  isError :: "bool option"
  "output" :: "'p option"

text \<open>
  The collection of message requests, by \<^verbatim>\<open>_id\<close>.  \<^verbatim>\<open>findById\<close> yields \<^verbatim>\<open>null\<close> for an unknown
  id; \<^verbatim>\<open>save\<close> stores the document under its id and yields it.
\<close>

type_synonym 'p collection = "string \<rightharpoonup> 'p MessageRequest"

definition findMessageRequest ::
  "'p collection \<Rightarrow> string \<Rightarrow> AppError + 'p MessageRequest" where
  "findMessageRequest db ident =
     (case db ident of
        None \<Rightarrow>
          Inl (AppError NotFound (''Message request with ID='' @ ident @ '' not found.''))
      | Some messageRequest \<Rightarrow> Inr messageRequest)"

definition saveMessageRequest ::
  "'p collection \<Rightarrow> 'p MessageRequest \<Rightarrow> 'p MessageRequest \<times> 'p collection" where
  "saveMessageRequest db messageRequest =
     (messageRequest, db(messageRequestId messageRequest \<mapsto> messageRequest))"

text \<open>
  \<^verbatim>\<open>updateMessageRequest\<close>.  The optional \<^verbatim>\<open>response\<close> is a pair of \<^verbatim>\<open>isError\<close> and \<^verbatim>\<open>data\<close>;
  \<^verbatim>\<open>response?.isError\<close> and \<^verbatim>\<open>response?.data\<close> are \<^verbatim>\<open>undefined\<close> without it, and
  \<^verbatim>\<open>Object.assign\<close> assigns them all the same.  \<^verbatim>\<open>positionInTheQueue || 0\<close> is zero for a
  missing position.  The result is the outcome and the collection afterwards.
\<close>

definition updateMessageRequest ::
  "'p collection \<Rightarrow> 'p MessageRequest \<Rightarrow> string \<Rightarrow> string \<Rightarrow> (bool \<times> 'p) option \<Rightarrow>
   int option \<Rightarrow> (AppError + 'p MessageRequest) \<times> 'p collection" where
  "updateMessageRequest db messageRequest documentId documentType response positionInTheQueue =
     (case findMessageRequest db (messageRequestId messageRequest) of
        Inl err \<Rightarrow> (Inl err, db)
      | Inr messageRequestFound \<Rightarrow>
          (case saveMessageRequest db
                  (messageRequestFound
                     \<lparr> associatedDocumentId := Some documentId,
                       associatedDocumentType := Some documentType,
                       startingPositionInQueue :=
                         Some (case positionInTheQueue of Some n \<Rightarrow> n | None \<Rightarrow> 0),
                       completed := True,
                       isError := map_option fst response,
                       output := map_option snd response \<rparr>) of
             (saved, db') \<Rightarrow> (Inr saved, db')))"

section \<open>forgeUtils.ts: merging the parser outputs\<close>

text \<open>
  Both parsers return an object with the properties \<^verbatim>\<open>overall\<close> and \<^verbatim>\<open>tests\<close>.  In the
  output of the test-result parser \<^verbatim>\<open>tests\<close> is an array of per-test objects (or absent);
  in the output of the gas-change parser it is an object indexed by test name, whose
  values are objects.
\<close>

record 't ForgeOutput =
  overall :: "jsobject option"
  tests :: 't

type_synonym TestOutput = "jsobject list option ForgeOutput"

type_synonym GasChangeOutput = "(string \<times> jsobject) list ForgeOutput"

text \<open>Reading a property: \<^verbatim>\<open>undefined\<close> when the object has no such key.\<close>

definition getProperty :: "jsobject \<Rightarrow> string \<Rightarrow> jsval" where
  "getProperty obj key = (case map_of obj key of Some v \<Rightarrow> v | None \<Rightarrow> JUndefined)"

text \<open>
  A spread \<^verbatim>\<open>...source\<close> inside an object literal assigns the properties of the source to
  the object under construction, in the source's order: a key the object has already
  keeps its place and takes the new value, a new key goes to the end.  Spreading
  \<^verbatim>\<open>undefined\<close> assigns nothing.
\<close>

definition assignProperties :: "jsobject \<Rightarrow> jsobject \<Rightarrow> jsobject" where
  "assignProperties target source = fold (\<lambda>(key, v). AList.update key v) source target"

definition spreadTwo :: "jsobject \<Rightarrow> jsobject \<Rightarrow> jsobject" where
  "spreadTwo a b = assignProperties (assignProperties [] a) b"

definition orEmptyObject :: "jsobject option \<Rightarrow> jsobject" where
  "orEmptyObject obj = (case obj of Some x \<Rightarrow> x | None \<Rightarrow> [])"

text \<open>
  The callback of \<^verbatim>\<open>testOutput.tests?.map\<close>:
  \<^verbatim>\<open>(result) => ({ ...result, ...(gasChangeOutput.tests[result.test] || {}) })\<close>.
  The index expression turns \<^verbatim>\<open>result.test\<close> into a property key.
\<close>

definition mergeTestResult :: "(string \<times> jsobject) list \<Rightarrow> jsobject \<Rightarrow> jsobject" where
  "mergeTestResult gasChangeTests result =
     spreadTwo result
       (case map_of gasChangeTests (toString (getProperty result ''test'')) of
          Some gasChange \<Rightarrow> gasChange
        | None \<Rightarrow> [])"

text \<open>The object literal that \<^verbatim>\<open>processForgeTestOutput\<close> returns.\<close>

definition mergeForgeOutputs :: "TestOutput \<Rightarrow> GasChangeOutput \<Rightarrow> TestOutput" where
  "mergeForgeOutputs testOutput gasChangeOutput =
     \<lparr> overall = Some (spreadTwo (orEmptyObject (overall testOutput))
                                 (orEmptyObject (overall gasChangeOutput))),
       tests = map_option (map (mergeTestResult (tests gasChangeOutput))) (tests testOutput) \<rparr>"

text \<open>
  The two parsers are in files outside the ones at hand and are parameters; what either
  of them throws leaves \<^verbatim>\<open>processForgeTestOutput\<close> unchanged.  The text is
  \<^verbatim>\<open>string | undefined | null\<close>.
\<close>

definition processForgeTestOutput ::
  "(string option \<Rightarrow> 'e + TestOutput) \<Rightarrow> (string option \<Rightarrow> 'e + GasChangeOutput) \<Rightarrow>
   string option \<Rightarrow> 'e + TestOutput" where
  "processForgeTestOutput extractTestResultsFromForgeTestExecutionOutput
       extractGasChangeFromForgeTestExecutionOutput forgeTestOutput =
     (case extractTestResultsFromForgeTestExecutionOutput forgeTestOutput of
        Inl err \<Rightarrow> Inl err
      | Inr testOutput \<Rightarrow>
          (case extractGasChangeFromForgeTestExecutionOutput forgeTestOutput of
             Inl err \<Rightarrow> Inl err
           | Inr gasChangeOutput \<Rightarrow> Inr (mergeForgeOutputs testOutput gasChangeOutput)))"

text \<open>An object has each key once; the same holds for the index of gas changes.\<close>

definition wellFormedObject :: "jsobject \<Rightarrow> bool" where
  "wellFormedObject obj = distinct (map fst obj)"

definition wellFormedTestOutput :: "TestOutput \<Rightarrow> bool" where
  "wellFormedTestOutput t =
     (wellFormedObject (orEmptyObject (overall t))
      \<and> list_all wellFormedObject (case tests t of Some rs \<Rightarrow> rs | None \<Rightarrow> []))"

definition wellFormedGasChangeOutput :: "GasChangeOutput \<Rightarrow> bool" where
  "wellFormedGasChangeOutput g =
     (wellFormedObject (orEmptyObject (overall g))
      \<and> distinct (map fst (tests g))
      \<and> list_all wellFormedObject (map snd (tests g)))"

section \<open>project-service.ts: creating a project\<close>

text \<open>
  Modelled from the spec: the enums \<^verbatim>\<open>DockerExitCode\<close> and \<^verbatim>\<open>ContainerPurpose\<close> are declared
  outside the files at hand.  The specification names four translated exit codes and two
  purposes; \<^verbatim>\<open>saveProject\<close> itself names \<^verbatim>\<open>PURPOSELY_STOPPED\<close> and \<^verbatim>\<open>PROJECT_CREATION\<close>.
\<close>

datatype DockerExitCode = SUCCESS | PURPOSELY_STOPPED | APPLICATION_ERROR | TIMEOUT

datatype ContainerPurpose = PROJECT_CREATION | SUBMISSION

text \<open>The fields of \<^verbatim>\<open>IDockerImage\<close> that \<^verbatim>\<open>saveProject\<close> reads.\<close>

record DockerImage =
  imageName :: string
  imageID :: string

text \<open>
  The \<^verbatim>\<open>output\<close> of a container is what the engine captured, with the text under \<^verbatim>\<open>data\<close>,
  until \<^verbatim>\<open>saveProject\<close> replaces it with the test output parsed from that text.
\<close>

datatype ContainerOutput = UnprocessedOutput "string option" | ProcessedOutput TestOutput

record ContainerResults =
  statusCode :: DockerExitCode
  "output" :: "ContainerOutput option"

record DockerContainerHistory =
  dockerImage :: DockerImage
  purpose :: ContainerPurpose
  container :: ContainerResults

text \<open>\<^verbatim>\<open>output?.data\<close>: \<^verbatim>\<open>undefined\<close> when there is no output or the output has no text.\<close>

fun outputData :: "ContainerOutput option \<Rightarrow> string option" where
  "outputData None = None"
| "outputData (Some (UnprocessedOutput d)) = d"
| "outputData (Some (ProcessedOutput t)) = None"

text \<open>
  The modules \<^verbatim>\<open>fsUtils\<close>, \<^verbatim>\<open>dockerUtils\<close>, \<^verbatim>\<open>dockerImageService\<close>, \<^verbatim>\<open>errorUtils\<close> and the
  snapshot parser are outside the files at hand.  Each is a parameter: a function from the
  arguments of the call to its outcome, \<open>Inl\<close> (or \<open>Some\<close>, for a call that returns
  nothing) for what it throws.  \<open>'e\<close> is the type of thrown values, \<open>'z\<close> the zip buffer.
\<close>

record ('e, 'z) adapters =
  readFromZipBuffer :: "string \<Rightarrow> 'z \<Rightarrow> 'e + (string \<times> string)"
  createImage :: "string \<Rightarrow> string \<Rightarrow> 'e + DockerImage"
  removeDirectorySync :: "string \<Rightarrow> 'e option"
  runImage :: "string \<Rightarrow> string \<Rightarrow> string \<Rightarrow> 'e + ContainerResults"
  extractTestOutputFromGasSnapshot :: "string option \<Rightarrow> 'e + TestOutput"
  saveDockerImageWithDockerContainerHistory ::
    "DockerImage \<Rightarrow> DockerContainerHistory \<Rightarrow> 'e + (bool \<times> DockerContainerHistory)"
  removeImage :: "string \<Rightarrow> bool \<Rightarrow> 'e option"
  handleError :: "'e \<Rightarrow> string \<Rightarrow> 'e"

text \<open>The calls that reach the file system, the container engine and the database.\<close>

datatype event =
    ReadFromZipBuffer string
  | CreateImage string string
  | RemoveDirectorySync string
  | RunImage string string string
  | SaveDockerImageWithDockerContainerHistory DockerImage DockerContainerHistory
  | RemoveImage string bool

text \<open>\<^verbatim>\<open>forgeUtils.processForgeSnapshotOutput\<close> hands the text to the snapshot parser.\<close>

definition processForgeSnapshotOutput ::
  "(string option \<Rightarrow> 'e + TestOutput) \<Rightarrow> string option \<Rightarrow> 'e + TestOutput" where
  "processForgeSnapshotOutput gasSnapshotParser gasSnapshotText =
     gasSnapshotParser gasSnapshotText"

definition processDockerContainerOutput ::
  "('e, 'z) adapters \<Rightarrow> string \<Rightarrow> ContainerOutput option \<Rightarrow> 'e + ContainerOutput" where
  "processDockerContainerOutput env projectName out =
     (case processForgeSnapshotOutput (extractTestOutputFromGasSnapshot env) (outputData out) of
        Inr testOutput \<Rightarrow> Inr (ProcessedOutput testOutput)
      | Inl err \<Rightarrow>
          Inl (handleError env err
            (''An error occurred while retrieving the names of the tests for the ''
               @ projectName @ '' project from the gas snapshot output.'')))"

text \<open>
  The body of the \<^verbatim>\<open>try\<close> block of \<^verbatim>\<open>saveProject\<close> from the point where \<^verbatim>\<open>dockerImage\<close> has
  been assigned.  The result is the outcome, the value of \<^verbatim>\<open>dockerImage\<close> when the block is
  left, and the calls made so far.
\<close>

definition saveProjectWithImage ::
  "('e, 'z) adapters \<Rightarrow> string \<Rightarrow> string \<Rightarrow> string \<Rightarrow> DockerImage \<Rightarrow> event list \<Rightarrow>
   ('e + (bool \<times> DockerContainerHistory)) \<times> DockerImage option \<times> event list" where
  "saveProjectWithImage env CMD_RETRIEVE_SNAPSHOTS projectName execName createdImage events =
     (let events2 = events @ [RunImage execName (imageName createdImage) CMD_RETRIEVE_SNAPSHOTS]
      in case runImage env execName (imageName createdImage) CMD_RETRIEVE_SNAPSHOTS of
           Inl err \<Rightarrow> (Inl err, Some createdImage, events2)
         | Inr containerResults \<Rightarrow>
             (case (if statusCode containerResults = PURPOSELY_STOPPED
                    then (case processDockerContainerOutput env projectName
                                 (output containerResults) of
                            Inl err \<Rightarrow> Inl err
                          | Inr processed \<Rightarrow> Inr (containerResults\<lparr>output := Some processed\<rparr>))
                    else Inr containerResults) of
                Inl err \<Rightarrow> (Inl err, Some createdImage, events2)
              | Inr containerResults' \<Rightarrow>
                  (let dockerContainerHistory =
                         \<lparr> dockerImage = createdImage, purpose = PROJECT_CREATION,
                           container = containerResults' \<rparr>;
                       events3 = events2 @
                         [SaveDockerImageWithDockerContainerHistory createdImage dockerContainerHistory]
                   in case saveDockerImageWithDockerContainerHistory env createdImage
                             dockerContainerHistory of
                        Inl err \<Rightarrow> (Inl err, Some createdImage, events3)
                      | Inr (isNew, dockerContainerHistorySaved) \<Rightarrow>
                          (Inr (isNew, dockerContainerHistorySaved), Some createdImage, events3))))"

text \<open>
  The whole \<^verbatim>\<open>try\<close> block.  \<^verbatim>\<open>Date.now()\<close> is the parameter \<open>now\<close>.  The callback of
  \<^verbatim>\<open>.finally\<close> runs whether \<^verbatim>\<open>createImage\<close> resolved or rejected; when the callback throws,
  the awaited promise rejects with what it threw, and \<^verbatim>\<open>dockerImage\<close> stays \<^verbatim>\<open>null\<close>.
\<close>

definition saveProjectTry ::
  "('e, 'z) adapters \<Rightarrow> string \<Rightarrow> nat \<Rightarrow> string \<Rightarrow> 'z \<Rightarrow>
   ('e + (bool \<times> DockerContainerHistory)) \<times> DockerImage option \<times> event list" where
  "saveProjectTry env CMD_RETRIEVE_SNAPSHOTS now projectName zipBuffer =
     (let execName = projectName @ ''_creation_'' @ showNat now
      in case readFromZipBuffer env execName zipBuffer of
           Inl err \<Rightarrow> (Inl err, None, [ReadFromZipBuffer execName])
         | Inr (tempDirPath, tempProjectDirPath) \<Rightarrow>
             (let events1 = [ReadFromZipBuffer execName,
                             CreateImage projectName tempProjectDirPath,
                             RemoveDirectorySync tempDirPath]
              in case removeDirectorySync env tempDirPath of
                   Some err \<Rightarrow> (Inl err, None, events1)
                 | None \<Rightarrow>
                     (case createImage env projectName tempProjectDirPath of
                        Inl err \<Rightarrow> (Inl err, None, events1)
                      | Inr createdImage \<Rightarrow>
                          saveProjectWithImage env CMD_RETRIEVE_SNAPSHOTS projectName
                            execName createdImage events1)))"

text \<open>
  \<^verbatim>\<open>saveProject\<close>: the \<^verbatim>\<open>try\<close> block and its \<^verbatim>\<open>catch\<close>.  What \<^verbatim>\<open>removeImage\<close> throws inside
  the \<^verbatim>\<open>catch\<close> block leaves \<^verbatim>\<open>saveProject\<close> as it is.
\<close>

definition saveProject ::
  "('e, 'z) adapters \<Rightarrow> string \<Rightarrow> nat \<Rightarrow> string \<Rightarrow> 'z \<Rightarrow>
   ('e + (bool \<times> DockerContainerHistory)) \<times> event list" where
  "saveProject env CMD_RETRIEVE_SNAPSHOTS now projectName zipBuffer =
     (case saveProjectTry env CMD_RETRIEVE_SNAPSHOTS now projectName zipBuffer of
        (Inr result, createdImage, events) \<Rightarrow> (Inr result, events)
      | (Inl err, None, events) \<Rightarrow>
          (Inl (handleError env err
             (''An error occurred while creating the '' @ projectName @ '' project.'')),
           events)
      | (Inl err, Some createdImage, events) \<Rightarrow>
          (case removeImage env (imageName createdImage) True of
             Some removalErr \<Rightarrow>
               (Inl removalErr, events @ [RemoveImage (imageName createdImage) True])
           | None \<Rightarrow>
               (Inl (handleError env err
                  (''An error occurred while creating the '' @ projectName @ '' project.'')),
                events @ [RemoveImage (imageName createdImage) True])))"

text \<open>
  An environment for examples: the archive is read, the image is built, the container
  exits with the given results, the database answers with the given outcome, and every
  removal goes through.  Thrown values are strings; \<^verbatim>\<open>handleError\<close> puts the message in
  front of the cause.
\<close>

definition exampleAdapters ::
  "ContainerResults \<Rightarrow> (string + bool) \<Rightarrow> (string, nat list) adapters" where
  "exampleAdapters results saved =
     \<lparr> readFromZipBuffer = (\<lambda>execName zipBuffer. Inr (''/tmp/a'', ''/tmp/a/project'')),
       createImage = (\<lambda>projectName path. Inr \<lparr> imageName = projectName, imageID = ''sha256:1'' \<rparr>),
       removeDirectorySync = (\<lambda>path. None),
       runImage = (\<lambda>execName image cmd. Inr results),
       extractTestOutputFromGasSnapshot = (\<lambda>text. Inr \<lparr> overall = None, tests = None \<rparr>),
       saveDockerImageWithDockerContainerHistory =
         (\<lambda>image history. case saved of Inl err \<Rightarrow> Inl err | Inr isNew \<Rightarrow> Inr (isNew, history)),
       removeImage = (\<lambda>image shouldPrune. None),
       handleError = (\<lambda>err message. message @ '' '' @ err) \<rparr>"

section \<open>Properties of the execution command\<close>

lemma join_as_concat:
  "xs \<noteq> [] \<Longrightarrow> sep @ join sep xs = concat (map (\<lambda>x. sep @ x) xs)"
  by (induction sep xs rule: join.induct) simp_all

lemma join_Nil_iff:
  "\<forall>x \<in> set xs. x \<noteq> [] \<Longrightarrow> join sep xs = [] \<longleftrightarrow> xs = []"
  by (induction sep xs rule: join.induct) simp_all

lemma collect_map_Inr: "collect (map Inr ys) = Inr ys"
  by (induction ys) simp_all

lemma collect_thrown:
  "(\<exists>err. collect xs = Inl err) \<longleftrightarrow> (\<exists>err. Inl err \<in> set xs)"
proof (induction xs)
  case Nil
  then show ?case by simp
next
  case (Cons x xs)
  then show ?case by (cases x) (auto split: sum.splits)
qed

lemma renderEntry_returned:
  "templateLiteral (snd e) = Inr text \<Longrightarrow>
   renderEntry e = Inr (convertCamelToExecArg (fst e) @ '' '' @ text)"
  by (simp add: renderEntry_def)

lemma renderEntry_thrown:
  "renderEntry e = Inl err \<longleftrightarrow> templateLiteral (snd e) = Inl err"
  by (simp add: renderEntry_def split: sum.splits)

lemma map_renderEntry_returned:
  "map (\<lambda>e. templateLiteral (snd e)) entries = map Inr texts \<Longrightarrow>
   map renderEntry entries =
     map Inr (map (\<lambda>(argumentName, text). convertCamelToExecArg argumentName @ '' '' @ text)
                (zip (map fst entries) texts))"
proof (induction entries arbitrary: texts)
  case Nil
  then show ?case by simp
next
  case (Cons e entries)
  then obtain str rest where texts: "texts = str # rest" by (cases texts) auto
  with Cons.prems have "templateLiteral (snd e) = Inr str"
    and "map (\<lambda>e. templateLiteral (snd e)) entries = map Inr rest"
    by simp_all
  with Cons.IH [of rest] texts show ?case
    by (simp add: renderEntry_returned)
qed

lemma getTestExecutionCommand_returned:
  assumes "map (\<lambda>e. templateLiteral (snd e)) (validEntries obj) = map Inr texts"
  shows "getTestExecutionCommand cmd (Some obj) =
     Inr (cmd @ concat (map (\<lambda>(argumentName, text).
                          '' '' @ convertCamelToExecArg argumentName @ '' '' @ text)
                        (zip (map fst (validEntries obj)) texts)))"
proof -
  define rendered where "rendered =
    map (\<lambda>(argumentName, text). convertCamelToExecArg argumentName @ '' '' @ text)
      (zip (map fst (validEntries obj)) texts)"
  have c: "collect (map renderEntry (validEntries obj)) = Inr rendered"
    unfolding rendered_def
    by (simp only: map_renderEntry_returned [OF assms] collect_map_Inr)
  have nonempty: "\<forall>x \<in> set rendered. x \<noteq> []"
    unfolding rendered_def by (auto simp: convertCamelToExecArg_def)
  have shape: "concat (map (\<lambda>x. '' '' @ x) rendered) =
      concat (map (\<lambda>(argumentName, text).
                     '' '' @ convertCamelToExecArg argumentName @ '' '' @ text)
                (zip (map fst (validEntries obj)) texts))"
    unfolding rendered_def by (simp add: comp_def case_prod_unfold)
  have "getTestExecutionCommand cmd (Some obj) = Inr (cmd @ concat (map (\<lambda>x. '' '' @ x) rendered))"
  proof (cases "rendered = []")
    case True
    then show ?thesis
      using c by (simp add: getTestExecutionCommand_def convertTestExecutionArgsToString_def)
  next
    case False
    then have "join '' '' rendered \<noteq> []"
      using join_Nil_iff [OF nonempty, of "'' ''"] by simp
    then have "getTestExecutionCommand cmd (Some obj) =
        Inr (cmd @ '' '' @ join '' '' rendered)"
      using c by (simp add: getTestExecutionCommand_def convertTestExecutionArgsToString_def)
    also have "'' '' @ join '' '' rendered = concat (map (\<lambda>x. '' '' @ x) rendered)"
      by (rule join_as_concat [OF False])
    finally show ?thesis .
  qed
  then show ?thesis by (simp only: shape)
qed

lemma getTestExecutionCommand_thrown:
  "(\<exists>err. getTestExecutionCommand cmd (Some obj) = Inl err) \<longleftrightarrow>
   (\<exists>e \<in> set (validEntries obj). \<exists>err. templateLiteral (snd e) = Inl err)"
proof -
  have "(\<exists>err. getTestExecutionCommand cmd (Some obj) = Inl err) \<longleftrightarrow>
      (\<exists>err. collect (map renderEntry (validEntries obj)) = Inl err)"
    by (auto simp: getTestExecutionCommand_def convertTestExecutionArgsToString_def
        split: sum.splits)
  also have "\<dots> \<longleftrightarrow> (\<exists>err. Inl err \<in> set (map renderEntry (validEntries obj)))"
    by (rule collect_thrown)
  also have "\<dots> \<longleftrightarrow> (\<exists>e \<in> set (validEntries obj). \<exists>err. renderEntry e = Inl err)"
    by (simp add: image_iff) (metis (full_types))
  also have "\<dots> \<longleftrightarrow> (\<exists>e \<in> set (validEntries obj). \<exists>err. templateLiteral (snd e) = Inl err)"
    by (simp only: renderEntry_thrown)
  finally show ?thesis .
qed

lemma all_returned_texts:
  "\<forall>e \<in> set entries. \<exists>text. templateLiteral (snd e) = Inr text \<Longrightarrow>
   \<exists>texts. map (\<lambda>e. templateLiteral (snd e)) entries = map Inr texts"
proof (induction entries)
  case Nil
  then show ?case by simp
next
  case (Cons e entries)
  then obtain str texts where "templateLiteral (snd e) = Inr str"
    and "map (\<lambda>e. templateLiteral (snd e)) entries = map Inr texts"
    by auto
  then have "map (\<lambda>e. templateLiteral (snd e)) (e # entries) = map Inr (str # texts)"
    by simp
  then show ?case by blast
qed

lemma getTestExecutionCommand_None: "getTestExecutionCommand cmd None = Inr cmd"
  by (simp add: getTestExecutionCommand_def convertTestExecutionArgsToString_def)

lemma validEntries_idem: "validEntries (validEntries obj) = validEntries obj"
  by (simp add: validEntries_def)

lemma getTestExecutionCommand_validEntries:
  "getTestExecutionCommand cmd (Some obj) = getTestExecutionCommand cmd (Some (validEntries obj))"
  by (simp add: getTestExecutionCommand_def convertTestExecutionArgsToString_def
      validEntries_idem)

lemma concat_map_contains:
  "x \<in> set xs \<Longrightarrow> \<exists>pre post. concat (map f xs) = pre @ f x @ post"
proof (induction xs)
  case Nil
  then show ?case by simp
next
  case (Cons y ys)
  show ?case
  proof (cases "x = y")
    case True
    have "concat (map f (y # ys)) = [] @ f x @ concat (map f ys)"
      using True by simp
    then show ?thesis by blast
  next
    case False
    with Cons.prems have "x \<in> set ys" by simp
    from Cons.IH [OF this] obtain pre post
      where "concat (map f ys) = pre @ f x @ post" by blast
    then have "concat (map f (y # ys)) = (f y @ pre) @ f x @ post" by simp
    then show ?thesis by blast
  qed
qed

lemma zipped_text:
  assumes "map (\<lambda>e. templateLiteral (snd e)) entries = map Inr texts"
    and "(argumentName, argumentValue) \<in> set entries"
    and "templateLiteral argumentValue = Inr text"
  shows "(argumentName, text) \<in> set (zip (map fst entries) texts)"
proof -
  from assms(2) obtain i where i: "i < length entries" "entries ! i = (argumentName, argumentValue)"
    by (auto simp: in_set_conv_nth)
  from assms(1) have len: "length texts = length entries"
    by (metis length_map)
  from assms(1) i(1) have "templateLiteral (snd (entries ! i)) = Inr (texts ! i)"
    by (metis len length_map nth_map)
  with i(2) assms(3) have "texts ! i = text" by simp
  with i len show ?thesis
    by (auto simp: in_set_zip intro!: exI [of _ i])
qed

subsection \<open>The whitelist\<close>

text \<open>
  Claim C4, as the code has it.  Whatever object of execution arguments comes with a
  submission, the names kept by the filter are exactly the names of the object that are
  in the whitelist, in the object's order, and what \<^verbatim>\<open>getTestExecutionCommand\<close> does, return
  a command or throw, is what it does for the object with every other key removed: a key
  outside the whitelist is dropped whatever its value.  The submission proceeds when the
  value of every whitelisted key can be turned into a string: then a command is returned,
  and every entry with a whitelisted name is in it, as a space, its rendered name, a space
  and its value as a string.  When the value of a whitelisted key cannot be turned into a
  string, \<^verbatim>\<open>getTestExecutionCommand\<close> throws.
\<close>

theorem whitelist_only_forwarded:
  "map fst (validEntries obj) =
     filter (\<lambda>argumentName. argumentName \<in> set VALID_TEST_EXECUTION_ARGUMENTS) (map fst obj)
   \<and> getTestExecutionCommand cmd (Some obj) =
       getTestExecutionCommand cmd (Some (validEntries obj))
   \<and> ((\<forall>(argumentName, argumentValue) \<in> set obj.
          argumentName \<in> set VALID_TEST_EXECUTION_ARGUMENTS \<longrightarrow>
          (\<exists>text. templateLiteral argumentValue = Inr text)) \<longrightarrow>
        (\<exists>command. getTestExecutionCommand cmd (Some obj) = Inr command
           \<and> (\<forall>argumentName argumentValue text.
                 (argumentName, argumentValue) \<in> set obj
                   \<and> argumentName \<in> set VALID_TEST_EXECUTION_ARGUMENTS
                   \<and> templateLiteral argumentValue = Inr text \<longrightarrow>
                 (\<exists>pre post. command =
                    cmd @ pre @ '' '' @ convertCamelToExecArg argumentName @ '' ''
                      @ text @ post))))
   \<and> ((\<exists>(argumentName, argumentValue) \<in> set obj.
          argumentName \<in> set VALID_TEST_EXECUTION_ARGUMENTS
          \<and> (\<exists>err. templateLiteral argumentValue = Inl err)) \<longrightarrow>
        (\<exists>err. getTestExecutionCommand cmd (Some obj) = Inl err))"
proof (intro conjI impI)
  show "map fst (validEntries obj) =
     filter (\<lambda>argumentName. argumentName \<in> set VALID_TEST_EXECUTION_ARGUMENTS) (map fst obj)"
    by (induction obj) (auto simp: validEntries_def)
next
  show "getTestExecutionCommand cmd (Some obj) =
       getTestExecutionCommand cmd (Some (validEntries obj))"
    by (rule getTestExecutionCommand_validEntries)
next
  assume renders: "\<forall>(argumentName, argumentValue) \<in> set obj.
          argumentName \<in> set VALID_TEST_EXECUTION_ARGUMENTS \<longrightarrow>
          (\<exists>text. templateLiteral argumentValue = Inr text)"
  then have "\<forall>e \<in> set (validEntries obj). \<exists>text. templateLiteral (snd e) = Inr text"
    by (auto simp: validEntries_def)
  from all_returned_texts [OF this] obtain texts
    where texts: "map (\<lambda>e. templateLiteral (snd e)) (validEntries obj) = map Inr texts"
    by blast
  let ?f = "\<lambda>(argumentName, text). '' '' @ convertCamelToExecArg argumentName @ '' '' @ text"
  let ?command = "cmd @ concat (map ?f (zip (map fst (validEntries obj)) texts))"
  have command: "getTestExecutionCommand cmd (Some obj) = Inr ?command"
    by (rule getTestExecutionCommand_returned [OF texts])
  have "\<exists>pre post. ?command =
      cmd @ pre @ '' '' @ convertCamelToExecArg argumentName @ '' '' @ str @ post"
    if "(argumentName, argumentValue) \<in> set obj
          \<and> argumentName \<in> set VALID_TEST_EXECUTION_ARGUMENTS
          \<and> templateLiteral argumentValue = Inr str"
    for argumentName argumentValue str
  proof -
    from that have "(argumentName, argumentValue) \<in> set (validEntries obj)"
      by (simp add: validEntries_def)
    from zipped_text [OF texts this] that
    have "(argumentName, str) \<in> set (zip (map fst (validEntries obj)) texts)"
      by simp
    from concat_map_contains [OF this, of ?f] obtain pre post where
      "concat (map ?f (zip (map fst (validEntries obj)) texts)) =
         pre @ ?f (argumentName, str) @ post"
      by blast
    then have "?command =
        cmd @ pre @ '' '' @ convertCamelToExecArg argumentName @ '' '' @ str @ post"
      by simp
    then show ?thesis by blast
  qed
  with command show "\<exists>command. getTestExecutionCommand cmd (Some obj) = Inr command
           \<and> (\<forall>argumentName argumentValue text.
                 (argumentName, argumentValue) \<in> set obj
                   \<and> argumentName \<in> set VALID_TEST_EXECUTION_ARGUMENTS
                   \<and> templateLiteral argumentValue = Inr text \<longrightarrow>
                 (\<exists>pre post. command =
                    cmd @ pre @ '' '' @ convertCamelToExecArg argumentName @ '' ''
                      @ text @ post))"
    by blast
next
  assume "\<exists>(argumentName, argumentValue) \<in> set obj.
          argumentName \<in> set VALID_TEST_EXECUTION_ARGUMENTS
          \<and> (\<exists>err. templateLiteral argumentValue = Inl err)"
  then have "\<exists>e \<in> set (validEntries obj). \<exists>err. templateLiteral (snd e) = Inl err"
    by (auto simp: validEntries_def)
  then show "\<exists>err. getTestExecutionCommand cmd (Some obj) = Inl err"
    by (simp only: getTestExecutionCommand_thrown)
qed

theorem whitelist_only_forwarded_witness:
  "map fst (validEntries
       [(''badArg'', JObj [(''toString'', JPrim (JNum ''1''))]),
        (''matchTest'', JPrim (JStr ''testFoo''))])
     = [''matchTest'']
   \<and> getTestExecutionCommand ''forge snapshot --diff''
        (Some [(''badArg'', JObj [(''toString'', JPrim (JNum ''1''))]),
               (''matchTest'', JPrim (JStr ''testFoo''))]) =
      getTestExecutionCommand ''forge snapshot --diff''
        (Some [(''matchTest'', JPrim (JStr ''testFoo''))])
   \<and> (\<exists>command pre post.
        getTestExecutionCommand ''forge snapshot --diff''
          (Some [(''badArg'', JObj [(''toString'', JPrim (JNum ''1''))]),
                 (''matchTest'', JPrim (JStr ''testFoo''))]) = Inr command
        \<and> command = ''forge snapshot --diff'' @ pre @ '' --match-test testFoo'' @ post)"
proof -
  let ?obj = "[(''badArg'', JObj [(''toString'', JPrim (JNum ''1''))]),
               (''matchTest'', JPrim (JStr ''testFoo''))]"
  note w = whitelist_only_forwarded [of ?obj "''forge snapshot --diff''"]
  have v: "validEntries ?obj = [(''matchTest'', JPrim (JStr ''testFoo''))]"
    by (simp add: validEntries_def VALID_TEST_EXECUTION_ARGUMENTS_def)
  have k: "convertCamelToExecArg ''matchTest'' = ''--match-test''"
    by (simp add: convertCamelToExecArg_def toLowerCase_def toLowerChar_def
        isLowerAZ_def isUpperAZ_def)
  have renders: "\<forall>(argumentName, argumentValue) \<in> set ?obj.
          argumentName \<in> set VALID_TEST_EXECUTION_ARGUMENTS \<longrightarrow>
          (\<exists>text. templateLiteral argumentValue = Inr text)"
    by (simp add: VALID_TEST_EXECUTION_ARGUMENTS_def)
  have m: "(''matchTest'', JPrim (JStr ''testFoo'')) \<in> set ?obj
      \<and> ''matchTest'' \<in> set VALID_TEST_EXECUTION_ARGUMENTS
      \<and> templateLiteral (JPrim (JStr ''testFoo'')) = Inr ''testFoo''"
    by (simp add: VALID_TEST_EXECUTION_ARGUMENTS_def)
  from w have 1: "map fst (validEntries ?obj) = [''matchTest'']"
    by (simp add: VALID_TEST_EXECUTION_ARGUMENTS_def)
  from w v have 2: "getTestExecutionCommand ''forge snapshot --diff'' (Some ?obj) =
      getTestExecutionCommand ''forge snapshot --diff''
        (Some [(''matchTest'', JPrim (JStr ''testFoo''))])"
    by simp
  from w renders obtain command where
    c: "getTestExecutionCommand ''forge snapshot --diff'' (Some ?obj) = Inr command"
    and each: "\<forall>argumentName argumentValue text.
        (argumentName, argumentValue) \<in> set ?obj
          \<and> argumentName \<in> set VALID_TEST_EXECUTION_ARGUMENTS
          \<and> templateLiteral argumentValue = Inr text \<longrightarrow>
        (\<exists>pre post. command =
           ''forge snapshot --diff'' @ pre @ '' '' @ convertCamelToExecArg argumentName @ '' ''
             @ text @ post)"
    by blast
  from each m have "\<exists>pre post. command =
      ''forge snapshot --diff'' @ pre @ '' '' @ convertCamelToExecArg ''matchTest'' @ '' ''
        @ ''testFoo'' @ post"
    by blast
  then have 3: "\<exists>pre post. command =
      ''forge snapshot --diff'' @ pre @ '' --match-test testFoo'' @ post"
    by (simp add: k)
  from 1 2 c 3 show ?thesis by blast
qed

text \<open>
  Where the code leaves claim C4.  Next to a key outside the whitelist, the whitelisted
  key \<^verbatim>\<open>matchTest\<close> holds the object \<^verbatim>\<open>{"toString": 1}\<close>; the template literal cannot turn it
  into a string, \<^verbatim>\<open>getTestExecutionCommand\<close> throws a \<^verbatim>\<open>TypeError\<close>, and the submission does
  not proceed.
\<close>

theorem whitelist_only_forwarded_counterexample:
  "getTestExecutionCommand ''forge snapshot --diff''
     (Some [(''badArg'', JPrim (JStr ''x'')),
            (''matchTest'', JObj [(''toString'', JPrim (JNum ''1''))])])
   = Inl TypeError"
  by (simp add: getTestExecutionCommand_def convertTestExecutionArgsToString_def
      validEntries_def renderEntry_def VALID_TEST_EXECUTION_ARGUMENTS_def)

subsection \<open>The shape of the command\<close>

text \<open>
  Claim C5, as the code has it.  When the value of every retained whitelisted argument can
  be turned into a string, the execution command is the compare-snapshots base command
  followed, for each retained argument in order, by a space, the rendered name, a space
  and the value as a string; the rendered name is two hyphens and the kebab-case form of
  the camel-case name, as listed for the eight whitelisted names.  Computing the command
  throws exactly when the value of a retained argument cannot be turned into a string.
\<close>

theorem getTestExecutionCommand_shape:
  "(let retained = (case execArgs of Some obj \<Rightarrow> validEntries obj | None \<Rightarrow> [])
    in (\<forall>texts.
          map (\<lambda>(argumentName, argumentValue). templateLiteral argumentValue) retained
            = map Inr texts \<longrightarrow>
          getTestExecutionCommand cmd execArgs =
            Inr (cmd @ concat (map (\<lambda>(argumentName, text).
                                 '' '' @ convertCamelToExecArg argumentName @ '' '' @ text)
                               (zip (map fst retained) texts))))
     \<and> ((\<exists>err. getTestExecutionCommand cmd execArgs = Inl err) \<longleftrightarrow>
          (\<exists>(argumentName, argumentValue) \<in> set retained.
             \<exists>err. templateLiteral argumentValue = Inl err)))
   \<and> map convertCamelToExecArg VALID_TEST_EXECUTION_ARGUMENTS =
       [''--match-contract'', ''--match-test'', ''--match-path'',
        ''--no-match-contract'', ''--no-match-test'', ''--no-match-path'',
        ''--fuzz-runs'', ''--fuzz-seed'']"
proof
  show "let retained = (case execArgs of Some obj \<Rightarrow> validEntries obj | None \<Rightarrow> [])
    in (\<forall>texts.
          map (\<lambda>(argumentName, argumentValue). templateLiteral argumentValue) retained
            = map Inr texts \<longrightarrow>
          getTestExecutionCommand cmd execArgs =
            Inr (cmd @ concat (map (\<lambda>(argumentName, text).
                                 '' '' @ convertCamelToExecArg argumentName @ '' '' @ text)
                               (zip (map fst retained) texts))))
     \<and> ((\<exists>err. getTestExecutionCommand cmd execArgs = Inl err) \<longleftrightarrow>
          (\<exists>(argumentName, argumentValue) \<in> set retained.
             \<exists>err. templateLiteral argumentValue = Inl err))"
  proof (cases execArgs)
    case None
    then show ?thesis by (simp add: getTestExecutionCommand_None)
  next
    case (Some obj)
    have returned: "getTestExecutionCommand cmd (Some obj) =
        Inr (cmd @ concat (map (\<lambda>(argumentName, text).
                             '' '' @ convertCamelToExecArg argumentName @ '' '' @ text)
                           (zip (map fst (validEntries obj)) texts)))"
      if "map (\<lambda>(argumentName, argumentValue). templateLiteral argumentValue) (validEntries obj)
            = map Inr texts" for texts
      using that getTestExecutionCommand_returned [of obj texts cmd]
      by (simp add: case_prod_unfold)
    have thrown: "(\<exists>err. getTestExecutionCommand cmd (Some obj) = Inl err) \<longleftrightarrow>
          (\<exists>(argumentName, argumentValue) \<in> set (validEntries obj).
             \<exists>err. templateLiteral argumentValue = Inl err)"
      using getTestExecutionCommand_thrown [of cmd obj]
      by (simp add: case_prod_unfold)
    from returned thrown show ?thesis
      unfolding Some Let_def option.case by blast
  qed
next
  show "map convertCamelToExecArg VALID_TEST_EXECUTION_ARGUMENTS =
       [''--match-contract'', ''--match-test'', ''--match-path'',
        ''--no-match-contract'', ''--no-match-test'', ''--no-match-path'',
        ''--fuzz-runs'', ''--fuzz-seed'']"
    by (simp add: VALID_TEST_EXECUTION_ARGUMENTS_def convertCamelToExecArg_def
        toLowerCase_def toLowerChar_def isLowerAZ_def isUpperAZ_def)
qed

theorem getTestExecutionCommand_shape_witness:
  "getTestExecutionCommand ''forge snapshot --diff''
     (Some [(''matchTest'', JPrim (JStr ''testFoo'')), (''badArg'', JPrim (JStr ''x'')),
            (''fuzzSeed'', JPrim (JNum ''1e+21''))]) =
   Inr ''forge snapshot --diff --match-test testFoo --fuzz-seed 1e+21''"
proof -
  let ?obj = "[(''matchTest'', JPrim (JStr ''testFoo'')), (''badArg'', JPrim (JStr ''x'')),
               (''fuzzSeed'', JPrim (JNum ''1e+21''))]"
  have k: "convertCamelToExecArg ''matchTest'' = ''--match-test''"
      "convertCamelToExecArg ''fuzzSeed'' = ''--fuzz-seed''"
    by (simp_all add: convertCamelToExecArg_def toLowerCase_def toLowerChar_def
        isLowerAZ_def isUpperAZ_def)
  have v: "validEntries ?obj =
      [(''matchTest'', JPrim (JStr ''testFoo'')), (''fuzzSeed'', JPrim (JNum ''1e+21''))]"
    by (simp add: validEntries_def VALID_TEST_EXECUTION_ARGUMENTS_def)
  from getTestExecutionCommand_shape [of "Some ?obj" "''forge snapshot --diff''"]
  have "\<forall>texts.
      map (\<lambda>(argumentName, argumentValue). templateLiteral argumentValue) (validEntries ?obj)
        = map Inr texts \<longrightarrow>
      getTestExecutionCommand ''forge snapshot --diff'' (Some ?obj) =
        Inr (''forge snapshot --diff'' @
             concat (map (\<lambda>(argumentName, text).
                            '' '' @ convertCamelToExecArg argumentName @ '' '' @ text)
                       (zip (map fst (validEntries ?obj)) texts)))"
    by (simp only: Let_def option.case) blast
  from this [THEN spec, of "[''testFoo'', ''1e+21'']"] show ?thesis
    by (simp add: v k)
qed

text \<open>
  Where the code leaves claim C5.  The whitelisted key \<^verbatim>\<open>fuzzSeed\<close> holds the object
  \<^verbatim>\<open>{"toString": null}\<close>: no command is computed, \<^verbatim>\<open>getTestExecutionCommand\<close> throws a
  \<^verbatim>\<open>TypeError\<close>.
\<close>

theorem getTestExecutionCommand_shape_counterexample:
  "getTestExecutionCommand ''forge snapshot --diff''
     (Some [(''fuzzSeed'', JObj [(''toString'', JPrim JNull)])])
   = Inl TypeError"
  by (simp add: getTestExecutionCommand_def convertTestExecutionArgsToString_def
      validEntries_def renderEntry_def VALID_TEST_EXECUTION_ARGUMENTS_def)

subsection \<open>No arguments, no separator\<close>

text \<open>
  Claim C9.  When the execution-arguments object is undefined, or is empty, or has no
  whitelisted key, the command is returned and is exactly the compare-snapshots base
  command: nothing is appended, not even a space.
\<close>

theorem getTestExecutionCommand_base_only:
  assumes "execArgs = None
     \<or> (\<exists>obj. execArgs = Some obj
           \<and> (\<forall>argumentName \<in> fst ` set obj.
                 argumentName \<notin> set VALID_TEST_EXECUTION_ARGUMENTS))"
  shows "getTestExecutionCommand cmd execArgs = Inr cmd"
  using assms
proof
  assume "execArgs = None"
  then show ?thesis by (simp add: getTestExecutionCommand_None)
next
  assume "\<exists>obj. execArgs = Some obj
           \<and> (\<forall>argumentName \<in> fst ` set obj.
                 argumentName \<notin> set VALID_TEST_EXECUTION_ARGUMENTS)"
  then obtain obj where e: "execArgs = Some obj"
    and n: "\<forall>argumentName \<in> fst ` set obj.
              argumentName \<notin> set VALID_TEST_EXECUTION_ARGUMENTS"
    by blast
  from n have "validEntries obj = []"
    by (auto simp: validEntries_def filter_empty_conv)
  with e show ?thesis
    by (simp add: getTestExecutionCommand_def convertTestExecutionArgsToString_def)
qed

theorem getTestExecutionCommand_base_only_witness:
  "getTestExecutionCommand ''forge snapshot --diff'' None = Inr ''forge snapshot --diff''
   \<and> getTestExecutionCommand ''forge snapshot --diff'' (Some [])
       = Inr ''forge snapshot --diff''
   \<and> getTestExecutionCommand ''forge snapshot --diff''
        (Some [(''badArg'', JPrim (JStr ''x'')), (''verbosity'', JPrim (JNum ''3''))])
       = Inr ''forge snapshot --diff''"
proof (intro conjI)
  show "getTestExecutionCommand ''forge snapshot --diff'' None = Inr ''forge snapshot --diff''"
    by (rule getTestExecutionCommand_base_only) simp
  show "getTestExecutionCommand ''forge snapshot --diff'' (Some [])
      = Inr ''forge snapshot --diff''"
    by (rule getTestExecutionCommand_base_only) simp
  show "getTestExecutionCommand ''forge snapshot --diff''
        (Some [(''badArg'', JPrim (JStr ''x'')), (''verbosity'', JPrim (JNum ''3''))])
      = Inr ''forge snapshot --diff''"
    by (rule getTestExecutionCommand_base_only)
      (simp add: VALID_TEST_EXECUTION_ARGUMENTS_def)
qed

section \<open>Properties of the merge\<close>

lemma update_fresh_key:
  "key \<notin> fst ` set al \<Longrightarrow> AList.update key v al = al @ [(key, v)]"
  by (induction al) auto

lemma assignProperties_fresh:
  "distinct (map fst (target @ source)) \<Longrightarrow> assignProperties target source = target @ source"
proof (induction source arbitrary: target)
  case Nil
  then show ?case by (simp add: assignProperties_def)
next
  case (Cons p source)
  obtain key v where p: "p = (key, v)" by (cases p)
  from Cons.prems p have fresh: "key \<notin> fst ` set target" by auto
  from Cons.prems p have "distinct (map fst ((target @ [(key, v)]) @ source))" by auto
  from Cons.IH [OF this] show ?case
    using fresh p by (simp add: assignProperties_def update_fresh_key)
qed

lemma map_of_assignProperties:
  "map_of (assignProperties target source) = map_of target ++ map_of (rev source)"
proof (induction source arbitrary: target)
  case Nil
  then show ?case by (simp add: assignProperties_def)
next
  case (Cons p source)
  obtain key v where p: "p = (key, v)" by (cases p)
  have "map_of (assignProperties target (p # source)) =
      map_of (assignProperties (AList.update key v target) source)"
    by (simp add: assignProperties_def p)
  also have "\<dots> = (map_of target)(key \<mapsto> v) ++ map_of (rev source)"
    by (simp only: Cons.IH update_conv')
  also have "\<dots> = map_of target ++ map_of (rev (p # source))"
    by (simp add: p fun_eq_iff map_add_def split: option.splits)
  finally show ?case .
qed

lemma map_of_rev_distinct:
  "distinct (map fst xs) \<Longrightarrow> map_of (rev xs) = map_of xs"
  by (rule map_of_inject_set [THEN iffD2]) (simp_all add: rev_map [symmetric])

lemma spreadTwo_left_identity:
  "wellFormedObject a \<Longrightarrow> spreadTwo a [] = a"
  using assignProperties_fresh [of "[]" a]
  by (simp add: spreadTwo_def wellFormedObject_def assignProperties_def)

lemma map_of_spreadTwo:
  assumes "wellFormedObject a" "wellFormedObject b"
  shows "map_of (spreadTwo a b) = map_of a ++ map_of b"
proof -
  from assms(1) have "assignProperties [] a = a"
    using assignProperties_fresh [of "[]" a] by (simp add: wellFormedObject_def)
  then have "map_of (spreadTwo a b) = map_of a ++ map_of (rev b)"
    by (simp add: spreadTwo_def map_of_assignProperties)
  with assms(2) show ?thesis
    by (simp add: map_of_rev_distinct wellFormedObject_def)
qed

lemma mergeTestResult_unlisted:
  assumes "wellFormedObject result"
    and "map_of gasChangeTests (toString (getProperty result ''test'')) = None"
  shows "mergeTestResult gasChangeTests result = result"
  using assms by (simp add: mergeTestResult_def spreadTwo_left_identity)

lemma mergeTestResult_listed:
  assumes "wellFormedObject result" "wellFormedObject gasChange"
    and "map_of gasChangeTests (toString (getProperty result ''test'')) = Some gasChange"
  shows "map_of (mergeTestResult gasChangeTests result) = map_of result ++ map_of gasChange"
  using assms by (simp add: mergeTestResult_def map_of_spreadTwo)

lemma wellFormed_gasChange_entry:
  assumes "wellFormedGasChangeOutput g" "map_of (tests g) name = Some gasChange"
  shows "wellFormedObject gasChange"
proof -
  from assms(2) have "(name, gasChange) \<in> set (tests g)" by (rule map_of_SomeD)
  then have "gasChange \<in> set (map snd (tests g))" by force
  with assms(1) show ?thesis
    by (auto simp: wellFormedGasChangeOutput_def list_all_iff)
qed

text \<open>
  Claim C3, as the code has it.  The merged overall block has the keys of both overall
  blocks; a key of the gas-change block carries the gas-change value, whatever it is, and
  every other key carries the test-result value.  The merged tests are the tests of the
  test-result output, one for one and in their order (none when that output has no tests
  array): a test with no entry under its name in the gas-change output is carried over
  with exactly its fields, and a test with an entry carries the union of its fields and
  the entry's, the entry's value taken for a field of both.  Nothing is added for a name
  that only the gas-change output knows.
\<close>

theorem mergeForgeOutputs_fieldwise:
  assumes "wellFormedTestOutput t" and "wellFormedGasChangeOutput g"
  shows "(\<exists>m. overall (mergeForgeOutputs t g) = Some m
            \<and> map_of m = map_of (orEmptyObject (overall t)) ++ map_of (orEmptyObject (overall g)))
       \<and> (case tests t of
            None \<Rightarrow> tests (mergeForgeOutputs t g) = None
          | Some results \<Rightarrow>
              (\<exists>merged. tests (mergeForgeOutputs t g) = Some merged
                 \<and> length merged = length results
                 \<and> (\<forall>i < length results.
                      (case map_of (tests g) (toString (getProperty (results ! i) ''test'')) of
                         None \<Rightarrow> merged ! i = results ! i
                       | Some gasChange \<Rightarrow>
                           map_of (merged ! i) = map_of (results ! i) ++ map_of gasChange))))"
proof
  from assms have "wellFormedObject (orEmptyObject (overall t))"
      "wellFormedObject (orEmptyObject (overall g))"
    by (simp_all add: wellFormedTestOutput_def wellFormedGasChangeOutput_def)
  then show "\<exists>m. overall (mergeForgeOutputs t g) = Some m
      \<and> map_of m = map_of (orEmptyObject (overall t)) ++ map_of (orEmptyObject (overall g))"
    by (simp add: mergeForgeOutputs_def map_of_spreadTwo)
next
  show "case tests t of
          None \<Rightarrow> tests (mergeForgeOutputs t g) = None
        | Some results \<Rightarrow>
            (\<exists>merged. tests (mergeForgeOutputs t g) = Some merged
               \<and> length merged = length results
               \<and> (\<forall>i < length results.
                    (case map_of (tests g) (toString (getProperty (results ! i) ''test'')) of
                       None \<Rightarrow> merged ! i = results ! i
                     | Some gasChange \<Rightarrow>
                         map_of (merged ! i) = map_of (results ! i) ++ map_of gasChange)))"
  proof (cases "tests t")
    case None
    then show ?thesis by (simp add: mergeForgeOutputs_def)
  next
    case (Some results)
    let ?merged = "map (mergeTestResult (tests g)) results"
    have m: "tests (mergeForgeOutputs t g) = Some ?merged"
      using Some by (simp add: mergeForgeOutputs_def)
    have each: "case map_of (tests g) (toString (getProperty (results ! i) ''test'')) of
                  None \<Rightarrow> ?merged ! i = results ! i
                | Some gasChange \<Rightarrow>
                    map_of (?merged ! i) = map_of (results ! i) ++ map_of gasChange"
      if i: "i < length results" for i
    proof -
      from assms(1) Some i have wf: "wellFormedObject (results ! i)"
        by (simp add: wellFormedTestOutput_def list_all_length)
      show ?thesis
      proof (cases "map_of (tests g) (toString (getProperty (results ! i) ''test''))")
        case None
        with wf i show ?thesis by (simp add: mergeTestResult_unlisted)
      next
        case (Some gasChange)
        from wellFormed_gasChange_entry [OF assms(2) Some]
        have "wellFormedObject gasChange" .
        with wf Some i show ?thesis by (simp add: mergeTestResult_listed)
      qed
    qed
    from m each have "tests (mergeForgeOutputs t g) = Some ?merged
        \<and> length ?merged = length results
        \<and> (\<forall>i < length results.
              (case map_of (tests g) (toString (getProperty (results ! i) ''test'')) of
                 None \<Rightarrow> ?merged ! i = results ! i
               | Some gasChange \<Rightarrow>
                   map_of (?merged ! i) = map_of (results ! i) ++ map_of gasChange))"
      by simp
    then show ?thesis using Some by (simp del: length_map nth_map)
  qed
qed

theorem mergeForgeOutputs_fieldwise_witness:
  "wellFormedTestOutput
     \<lparr> overall = Some [(''numberOfTests'', JNum ''2'')],
       tests = Some [[(''test'', JStr ''A.testFoo''), (''status'', JStr ''PASS'')],
                     [(''test'', JStr ''A.testBaz''), (''status'', JStr ''PASS''),
                      (''gasUsed'', JNum ''7'')]] \<rparr>
   \<and> wellFormedGasChangeOutput
     \<lparr> overall = Some [(''gasDiffOverall'', JNum ''2'')],
       tests = [(''A.testBaz'', [(''gasUsed'', JNum ''9''), (''gasDiff'', JNum ''2'')])] \<rparr>
   \<and> (\<exists>m merged.
        mergeForgeOutputs
          \<lparr> overall = Some [(''numberOfTests'', JNum ''2'')],
            tests = Some [[(''test'', JStr ''A.testFoo''), (''status'', JStr ''PASS'')],
                          [(''test'', JStr ''A.testBaz''), (''status'', JStr ''PASS''),
                           (''gasUsed'', JNum ''7'')]] \<rparr>
          \<lparr> overall = Some [(''gasDiffOverall'', JNum ''2'')],
            tests = [(''A.testBaz'', [(''gasUsed'', JNum ''9''), (''gasDiff'', JNum ''2'')])] \<rparr>
        = \<lparr> overall = Some m, tests = Some merged \<rparr>
        \<and> map_of m = map_of [(''numberOfTests'', JNum ''2'')] ++ map_of [(''gasDiffOverall'', JNum ''2'')]
        \<and> length merged = 2
        \<and> merged ! 0 = [(''test'', JStr ''A.testFoo''), (''status'', JStr ''PASS'')]
        \<and> map_of (merged ! 1) =
            map_of [(''test'', JStr ''A.testBaz''), (''status'', JStr ''PASS''),
                    (''gasUsed'', JNum ''7'')]
            ++ map_of [(''gasUsed'', JNum ''9''), (''gasDiff'', JNum ''2'')])"
proof -
  let ?t = "\<lparr> overall = Some [(''numberOfTests'', JNum ''2'')],
       tests = Some [[(''test'', JStr ''A.testFoo''), (''status'', JStr ''PASS'')],
                     [(''test'', JStr ''A.testBaz''), (''status'', JStr ''PASS''),
                      (''gasUsed'', JNum ''7'')]] \<rparr>"
  let ?g = "\<lparr> overall = Some [(''gasDiffOverall'', JNum ''2'')],
       tests = [(''A.testBaz'', [(''gasUsed'', JNum ''9''), (''gasDiff'', JNum ''2'')])] \<rparr>"
  have wt: "wellFormedTestOutput ?t"
    by (simp add: wellFormedTestOutput_def wellFormedObject_def orEmptyObject_def)
  have wg: "wellFormedGasChangeOutput ?g"
    by (simp add: wellFormedGasChangeOutput_def wellFormedObject_def orEmptyObject_def)
  note th = mergeForgeOutputs_fieldwise [OF wt wg]
  from th obtain m where m: "overall (mergeForgeOutputs ?t ?g) = Some m"
    "map_of m = map_of [(''numberOfTests'', JNum ''2'')] ++ map_of [(''gasDiffOverall'', JNum ''2'')]"
    by (auto simp: orEmptyObject_def)
  from th obtain merged where merged: "tests (mergeForgeOutputs ?t ?g) = Some merged"
    "length merged = 2"
    and each: "\<forall>i < 2.
      (case map_of [(''A.testBaz'', [(''gasUsed'', JNum ''9''), (''gasDiff'', JNum ''2'')])]
              (toString (getProperty
                ([[(''test'', JStr ''A.testFoo''), (''status'', JStr ''PASS'')],
                  [(''test'', JStr ''A.testBaz''), (''status'', JStr ''PASS''),
                   (''gasUsed'', JNum ''7'')]] ! i) ''test'')) of
         None \<Rightarrow> merged ! i =
           [[(''test'', JStr ''A.testFoo''), (''status'', JStr ''PASS'')],
            [(''test'', JStr ''A.testBaz''), (''status'', JStr ''PASS''),
             (''gasUsed'', JNum ''7'')]] ! i
       | Some gasChange \<Rightarrow> map_of (merged ! i) =
           map_of ([[(''test'', JStr ''A.testFoo''), (''status'', JStr ''PASS'')],
                    [(''test'', JStr ''A.testBaz''), (''status'', JStr ''PASS''),
                     (''gasUsed'', JNum ''7'')]] ! i) ++ map_of gasChange)"
    by auto
  from each [THEN spec, of 0]
  have e0: "merged ! 0 = [(''test'', JStr ''A.testFoo''), (''status'', JStr ''PASS'')]"
    by (simp add: getProperty_def)
  from each [THEN spec, of 1] have "(1::nat) < 2 \<longrightarrow>
      map_of (merged ! 1) =
        map_of [(''test'', JStr ''A.testBaz''), (''status'', JStr ''PASS''),
                (''gasUsed'', JNum ''7'')]
        ++ map_of [(''gasUsed'', JNum ''9''), (''gasDiff'', JNum ''2'')]"
    by (simp add: getProperty_def)
  then have e1: "map_of (merged ! 1) =
        map_of [(''test'', JStr ''A.testBaz''), (''status'', JStr ''PASS''),
                (''gasUsed'', JNum ''7'')]
        ++ map_of [(''gasUsed'', JNum ''9''), (''gasDiff'', JNum ''2'')]"
    by simp
  have "mergeForgeOutputs ?t ?g = \<lparr> overall = Some m, tests = Some merged \<rparr>"
    using m(1) merged(1) by (cases "mergeForgeOutputs ?t ?g") simp
  with wt wg m(2) merged(2) e0 e1 show ?thesis by blast
qed

text \<open>
  Where the code leaves claim C3.  A test that only the gas-change output knows
  (\<open>B.testBar\<close>) is not in the merged tests, and a \<^verbatim>\<open>null\<close> of the gas-change overall block
  replaces the number the test-result overall block had under the same key.
\<close>

theorem mergeForgeOutputs_counterexample:
  "map_of [(''B.testBar'', [(''gasUsed'', JNum ''5''), (''gasDiff'', JNum ''-1'')])] ''B.testBar''
     = Some [(''gasUsed'', JNum ''5''), (''gasDiff'', JNum ''-1'')]
   \<and> mergeForgeOutputs
       \<lparr> overall = Some [(''numberOfTests'', JNum ''1''), (''gasDiffOverall'', JNum ''0'')],
         tests = Some [[(''test'', JStr ''A.testFoo''), (''status'', JStr ''PASS'')]] \<rparr>
       \<lparr> overall = Some [(''gasDiffOverall'', JNull)],
         tests = [(''B.testBar'', [(''gasUsed'', JNum ''5''), (''gasDiff'', JNum ''-1'')])] \<rparr>
     = \<lparr> overall = Some [(''numberOfTests'', JNum ''1''), (''gasDiffOverall'', JNull)],
         tests = Some [[(''test'', JStr ''A.testFoo''), (''status'', JStr ''PASS'')]] \<rparr>"
  by (simp add: mergeForgeOutputs_def mergeTestResult_def spreadTwo_def assignProperties_def
      orEmptyObject_def getProperty_def)

section \<open>Properties of project creation\<close>

lemma saveProjectTry_with_image:
  assumes "readFromZipBuffer env (projectName @ ''_creation_'' @ showNat now) zipBuffer
             = Inr (tempDirPath, tempProjectDirPath)"
    and "createImage env projectName tempProjectDirPath = Inr createdImage"
    and "removeDirectorySync env tempDirPath = None"
  shows "saveProjectTry env cmd now projectName zipBuffer =
           saveProjectWithImage env cmd projectName (projectName @ ''_creation_'' @ showNat now)
             createdImage
             [ReadFromZipBuffer (projectName @ ''_creation_'' @ showNat now),
              CreateImage projectName tempProjectDirPath,
              RemoveDirectorySync tempDirPath]"
  using assms by (simp add: saveProjectTry_def Let_def)

lemma saveProjectWithImage_image:
  "fst (snd (saveProjectWithImage env cmd projectName execName createdImage events))
     = Some createdImage"
  by (simp add: saveProjectWithImage_def Let_def split: sum.splits prod.splits)

lemma saveProjectWithImage_events:
  "\<exists>more. snd (snd (saveProjectWithImage env cmd projectName execName createdImage events))
            = events @ more
          \<and> (\<forall>name prune. RemoveImage name prune \<notin> set more)"
  by (auto simp: saveProjectWithImage_def Let_def split: sum.splits prod.splits)

lemma saveProjectWithImage_other_exit_code:
  assumes "runImage env execName (imageName createdImage) cmd = Inr containerResults"
    and "statusCode containerResults \<noteq> PURPOSELY_STOPPED"
  shows "saveProjectWithImage env cmd projectName execName createdImage events =
     (let history = \<lparr> dockerImage = createdImage, purpose = PROJECT_CREATION,
                      container = containerResults \<rparr>;
          events3 = events @ [RunImage execName (imageName createdImage) cmd,
                              SaveDockerImageWithDockerContainerHistory createdImage history]
      in case saveDockerImageWithDockerContainerHistory env createdImage history of
           Inl err \<Rightarrow> (Inl err, Some createdImage, events3)
         | Inr saved \<Rightarrow> (Inr saved, Some createdImage, events3))"
  using assms
  by (simp add: saveProjectWithImage_def Let_def split: sum.splits prod.splits)

text \<open>
  Claim C1, as the code has it.  When the archive has been read and the image built, and
  the baseline-discovery container exits with a status code other than
  \<^verbatim>\<open>PURPOSELY_STOPPED\<close>, the output of the container is left as it is and the image goes to
  the persistence service with a history record of purpose \<^verbatim>\<open>PROJECT_CREATION\<close> that holds
  the container results unchanged.  When that service answers, \<^verbatim>\<open>saveProject\<close> returns its
  answer: the build does not fail on account of the exit code, and the image is not
  removed.
\<close>

theorem saveProject_other_exit_code_persists:
  assumes "readFromZipBuffer env (projectName @ ''_creation_'' @ showNat now) zipBuffer
             = Inr (tempDirPath, tempProjectDirPath)"
    and "createImage env projectName tempProjectDirPath = Inr createdImage"
    and "removeDirectorySync env tempDirPath = None"
    and "runImage env (projectName @ ''_creation_'' @ showNat now) (imageName createdImage) cmd
           = Inr containerResults"
    and "statusCode containerResults \<noteq> PURPOSELY_STOPPED"
    and "saveDockerImageWithDockerContainerHistory env createdImage
           \<lparr> dockerImage = createdImage, purpose = PROJECT_CREATION,
             container = containerResults \<rparr> = Inr (isNew, saved)"
  shows "saveProject env cmd now projectName zipBuffer =
     (Inr (isNew, saved),
      [ReadFromZipBuffer (projectName @ ''_creation_'' @ showNat now),
       CreateImage projectName tempProjectDirPath,
       RemoveDirectorySync tempDirPath,
       RunImage (projectName @ ''_creation_'' @ showNat now) (imageName createdImage) cmd,
       SaveDockerImageWithDockerContainerHistory createdImage
         \<lparr> dockerImage = createdImage, purpose = PROJECT_CREATION,
           container = containerResults \<rparr>])"
proof -
  have "saveProjectTry env cmd now projectName zipBuffer =
      (Inr (isNew, saved), Some createdImage,
       [ReadFromZipBuffer (projectName @ ''_creation_'' @ showNat now),
        CreateImage projectName tempProjectDirPath,
        RemoveDirectorySync tempDirPath,
        RunImage (projectName @ ''_creation_'' @ showNat now) (imageName createdImage) cmd,
        SaveDockerImageWithDockerContainerHistory createdImage
          \<lparr> dockerImage = createdImage, purpose = PROJECT_CREATION,
            container = containerResults \<rparr>])"
    using saveProjectTry_with_image [OF assms(1-3), of cmd]
      saveProjectWithImage_other_exit_code [OF assms(4,5), of projectName
        "[ReadFromZipBuffer (projectName @ ''_creation_'' @ showNat now),
          CreateImage projectName tempProjectDirPath,
          RemoveDirectorySync tempDirPath]"]
      assms(6)
    by (simp add: Let_def)
  then show ?thesis by (simp add: saveProject_def)
qed

theorem saveProject_other_exit_code_persists_witness:
  "saveProject
     (exampleAdapters
        \<lparr> statusCode = TIMEOUT, output = Some (UnprocessedOutput None) \<rparr> (Inr False))
     ''forge snapshot'' 1700000000123 ''token'' [80, 75] =
   (Inr (False,
         \<lparr> dockerImage = \<lparr> imageName = ''token'', imageID = ''sha256:1'' \<rparr>,
           purpose = PROJECT_CREATION,
           container = \<lparr> statusCode = TIMEOUT, output = Some (UnprocessedOutput None) \<rparr> \<rparr>),
    [ReadFromZipBuffer ''token_creation_1700000000123'',
     CreateImage ''token'' ''/tmp/a/project'',
     RemoveDirectorySync ''/tmp/a'',
     RunImage ''token_creation_1700000000123'' ''token'' ''forge snapshot'',
     SaveDockerImageWithDockerContainerHistory
       \<lparr> imageName = ''token'', imageID = ''sha256:1'' \<rparr>
       \<lparr> dockerImage = \<lparr> imageName = ''token'', imageID = ''sha256:1'' \<rparr>,
         purpose = PROJECT_CREATION,
         container = \<lparr> statusCode = TIMEOUT, output = Some (UnprocessedOutput None) \<rparr> \<rparr>])"
proof -
  have n: "showNat 1700000000123 = ''1700000000123''"
    by (simp add: showNat.simps)
  let ?env = "exampleAdapters
        \<lparr> statusCode = TIMEOUT, output = Some (UnprocessedOutput None) \<rparr> (Inr False)"
  have "saveProject ?env ''forge snapshot'' 1700000000123 ''token'' [80, 75] =
     (Inr (False,
         \<lparr> dockerImage = \<lparr> imageName = ''token'', imageID = ''sha256:1'' \<rparr>,
           purpose = PROJECT_CREATION,
           container = \<lparr> statusCode = TIMEOUT, output = Some (UnprocessedOutput None) \<rparr> \<rparr>),
      [ReadFromZipBuffer (''token'' @ ''_creation_'' @ showNat 1700000000123),
       CreateImage ''token'' ''/tmp/a/project'',
       RemoveDirectorySync ''/tmp/a'',
       RunImage (''token'' @ ''_creation_'' @ showNat 1700000000123)
         (imageName \<lparr> imageName = ''token'', imageID = ''sha256:1'' \<rparr>) ''forge snapshot'',
       SaveDockerImageWithDockerContainerHistory
         \<lparr> imageName = ''token'', imageID = ''sha256:1'' \<rparr>
         \<lparr> dockerImage = \<lparr> imageName = ''token'', imageID = ''sha256:1'' \<rparr>,
           purpose = PROJECT_CREATION,
           container = \<lparr> statusCode = TIMEOUT, output = Some (UnprocessedOutput None) \<rparr> \<rparr>])"
    by (rule saveProject_other_exit_code_persists [where tempDirPath = "''/tmp/a''"])
      (simp_all add: exampleAdapters_def)
  then show ?thesis by (simp add: n)
qed

text \<open>
  Where the code leaves claim C1.  The discovery container exits with
  \<^verbatim>\<open>APPLICATION_ERROR\<close>; \<^verbatim>\<open>saveProject\<close> returns the saved history record, which holds that exit
  code, and the last call is the one to the persistence service: the image is not removed
  and no error is thrown.
\<close>

theorem saveProject_other_exit_code_counterexample:
  "saveProject
     (exampleAdapters
        \<lparr> statusCode = APPLICATION_ERROR,
          output = Some (UnprocessedOutput (Some ''compiler error'')) \<rparr> (Inr True))
     ''forge snapshot'' 1700000000123 ''token'' [80, 75] =
   (Inr (True,
         \<lparr> dockerImage = \<lparr> imageName = ''token'', imageID = ''sha256:1'' \<rparr>,
           purpose = PROJECT_CREATION,
           container = \<lparr> statusCode = APPLICATION_ERROR,
                         output = Some (UnprocessedOutput (Some ''compiler error'')) \<rparr> \<rparr>),
    [ReadFromZipBuffer ''token_creation_1700000000123'',
     CreateImage ''token'' ''/tmp/a/project'',
     RemoveDirectorySync ''/tmp/a'',
     RunImage ''token_creation_1700000000123'' ''token'' ''forge snapshot'',
     SaveDockerImageWithDockerContainerHistory
       \<lparr> imageName = ''token'', imageID = ''sha256:1'' \<rparr>
       \<lparr> dockerImage = \<lparr> imageName = ''token'', imageID = ''sha256:1'' \<rparr>,
         purpose = PROJECT_CREATION,
         container = \<lparr> statusCode = APPLICATION_ERROR,
                       output = Some (UnprocessedOutput (Some ''compiler error'')) \<rparr> \<rparr>])"
proof -
  have n: "showNat 1700000000123 = ''1700000000123''"
    by (simp add: showNat.simps)
  show ?thesis
    by (simp add: saveProject_def saveProjectTry_def saveProjectWithImage_def
        exampleAdapters_def n Let_def)
qed

lemma saveProject_without_image:
  assumes "readFromZipBuffer env (projectName @ ''_creation_'' @ showNat now) zipBuffer
             = Inr (tempDirPath, tempProjectDirPath)"
    and "createImage env projectName tempProjectDirPath = Inl err"
    and "removeDirectorySync env tempDirPath = None"
  shows "saveProject env cmd now projectName zipBuffer =
     (Inl (handleError env err
        (''An error occurred while creating the '' @ projectName @ '' project.'')),
      [ReadFromZipBuffer (projectName @ ''_creation_'' @ showNat now),
       CreateImage projectName tempProjectDirPath,
       RemoveDirectorySync tempDirPath])"
  using assms by (simp add: saveProject_def saveProjectTry_def Let_def)

lemma saveProject_with_image:
  assumes "readFromZipBuffer env (projectName @ ''_creation_'' @ showNat now) zipBuffer
             = Inr (tempDirPath, tempProjectDirPath)"
    and "createImage env projectName tempProjectDirPath = Inr createdImage"
    and "removeDirectorySync env tempDirPath = None"
    and "saveProjectWithImage env cmd projectName (projectName @ ''_creation_'' @ showNat now)
           createdImage
           [ReadFromZipBuffer (projectName @ ''_creation_'' @ showNat now),
            CreateImage projectName tempProjectDirPath,
            RemoveDirectorySync tempDirPath] = (Inl err, Some createdImage, events)"
  shows "saveProject env cmd now projectName zipBuffer =
     ((case removeImage env (imageName createdImage) True of
         None \<Rightarrow> Inl (handleError env err
                   (''An error occurred while creating the '' @ projectName @ '' project.''))
       | Some removalErr \<Rightarrow> Inl removalErr),
      events @ [RemoveImage (imageName createdImage) True])"
  using saveProjectTry_with_image [OF assms(1-3), of cmd] assms(4)
  by (simp add: saveProject_def split: option.splits)

lemma saveProjectWithImage_run_failure:
  assumes "runImage env execName (imageName createdImage) cmd = Inl err"
  shows "saveProjectWithImage env cmd projectName execName createdImage events =
     (Inl err, Some createdImage, events @ [RunImage execName (imageName createdImage) cmd])"
  using assms by (simp add: saveProjectWithImage_def Let_def)

lemma saveProjectWithImage_processing_failure:
  assumes "runImage env execName (imageName createdImage) cmd = Inr containerResults"
    and "statusCode containerResults = PURPOSELY_STOPPED"
    and "extractTestOutputFromGasSnapshot env (outputData (output containerResults)) = Inl err"
  shows "saveProjectWithImage env cmd projectName execName createdImage events =
     (Inl (handleError env err
        (''An error occurred while retrieving the names of the tests for the ''
           @ projectName @ '' project from the gas snapshot output.'')),
      Some createdImage, events @ [RunImage execName (imageName createdImage) cmd])"
  using assms
  by (simp add: saveProjectWithImage_def processDockerContainerOutput_def
      processForgeSnapshotOutput_def Let_def)

lemma saveProjectWithImage_persistence_failure_processed:
  assumes "runImage env execName (imageName createdImage) cmd = Inr containerResults"
    and "statusCode containerResults = PURPOSELY_STOPPED"
    and "extractTestOutputFromGasSnapshot env (outputData (output containerResults))
           = Inr testOutput"
    and "saveDockerImageWithDockerContainerHistory env createdImage
           \<lparr> dockerImage = createdImage, purpose = PROJECT_CREATION,
             container = containerResults\<lparr>output := Some (ProcessedOutput testOutput)\<rparr> \<rparr>
           = Inl err"
  shows "saveProjectWithImage env cmd projectName execName createdImage events =
     (Inl err, Some createdImage,
      events @ [RunImage execName (imageName createdImage) cmd,
                SaveDockerImageWithDockerContainerHistory createdImage
                  \<lparr> dockerImage = createdImage, purpose = PROJECT_CREATION,
                    container =
                      containerResults\<lparr>output := Some (ProcessedOutput testOutput)\<rparr> \<rparr>])"
  using assms
  by (simp add: saveProjectWithImage_def processDockerContainerOutput_def
      processForgeSnapshotOutput_def Let_def)

lemma saveProjectWithImage_persistence_failure_unprocessed:
  assumes "runImage env execName (imageName createdImage) cmd = Inr containerResults"
    and "statusCode containerResults \<noteq> PURPOSELY_STOPPED"
    and "saveDockerImageWithDockerContainerHistory env createdImage
           \<lparr> dockerImage = createdImage, purpose = PROJECT_CREATION,
             container = containerResults \<rparr> = Inl err"
  shows "saveProjectWithImage env cmd projectName execName createdImage events =
     (Inl err, Some createdImage,
      events @ [RunImage execName (imageName createdImage) cmd,
                SaveDockerImageWithDockerContainerHistory createdImage
                  \<lparr> dockerImage = createdImage, purpose = PROJECT_CREATION,
                    container = containerResults \<rparr>])"
  using assms by (simp add: saveProjectWithImage_def Let_def)

text \<open>
  Claim C7, as the code has it.  Let \<^verbatim>\<open>dockerImage\<close> hold the image that \<^verbatim>\<open>createImage\<close>
  returned: the archive was read, the image was built and the clean-up of the temporary
  directory went through.  Then each failure of the rest of the creation makes
  \<^verbatim>\<open>saveProject\<close> call \<^verbatim>\<open>removeImage\<close> on that image with \<^verbatim>\<open>shouldPrune: true\<close>, as its last
  call and its only removal, and throw: a failure of the discovery run, a failure of the
  parser on the output of a run that exited with \<^verbatim>\<open>PURPOSELY_STOPPED\<close>, and a failure of the
  persistence service, with the processed or with the unprocessed results.  What is
  thrown is the error that \<^verbatim>\<open>handleError\<close> makes of the failure or, when \<^verbatim>\<open>removeImage\<close>
  itself throws, what \<^verbatim>\<open>removeImage\<close> threw.
\<close>

theorem saveProject_failure_removes_image:
  fixes env :: "('e, 'z) adapters"
  defines "thrown \<equiv> \<lambda>projectName createdImage err.
      (case removeImage env (imageName createdImage) True of
         None \<Rightarrow> Inl (handleError env err
                   (''An error occurred while creating the '' @ projectName @ '' project.''))
       | Some removalErr \<Rightarrow> Inl removalErr)"
  assumes "readFromZipBuffer env (projectName @ ''_creation_'' @ showNat now) zipBuffer
             = Inr (tempDirPath, tempProjectDirPath)"
    and "createImage env projectName tempProjectDirPath = Inr createdImage"
    and "removeDirectorySync env tempDirPath = None"
  shows "(\<forall>err.
            runImage env (projectName @ ''_creation_'' @ showNat now) (imageName createdImage) cmd
              = Inl err \<longrightarrow>
            saveProject env cmd now projectName zipBuffer =
              (thrown projectName createdImage err,
               [ReadFromZipBuffer (projectName @ ''_creation_'' @ showNat now),
                CreateImage projectName tempProjectDirPath,
                RemoveDirectorySync tempDirPath,
                RunImage (projectName @ ''_creation_'' @ showNat now)
                  (imageName createdImage) cmd,
                RemoveImage (imageName createdImage) True]))
       \<and> (\<forall>containerResults err.
            runImage env (projectName @ ''_creation_'' @ showNat now) (imageName createdImage) cmd
              = Inr containerResults
            \<and> statusCode containerResults = PURPOSELY_STOPPED
            \<and> extractTestOutputFromGasSnapshot env (outputData (output containerResults))
                = Inl err \<longrightarrow>
            saveProject env cmd now projectName zipBuffer =
              (thrown projectName createdImage
                 (handleError env err
                    (''An error occurred while retrieving the names of the tests for the ''
                       @ projectName @ '' project from the gas snapshot output.'')),
               [ReadFromZipBuffer (projectName @ ''_creation_'' @ showNat now),
                CreateImage projectName tempProjectDirPath,
                RemoveDirectorySync tempDirPath,
                RunImage (projectName @ ''_creation_'' @ showNat now)
                  (imageName createdImage) cmd,
                RemoveImage (imageName createdImage) True]))
       \<and> (\<forall>containerResults testOutput err.
            runImage env (projectName @ ''_creation_'' @ showNat now) (imageName createdImage) cmd
              = Inr containerResults
            \<and> statusCode containerResults = PURPOSELY_STOPPED
            \<and> extractTestOutputFromGasSnapshot env (outputData (output containerResults))
                = Inr testOutput
            \<and> saveDockerImageWithDockerContainerHistory env createdImage
                \<lparr> dockerImage = createdImage, purpose = PROJECT_CREATION,
                  container = containerResults\<lparr>output := Some (ProcessedOutput testOutput)\<rparr> \<rparr>
                = Inl err \<longrightarrow>
            saveProject env cmd now projectName zipBuffer =
              (thrown projectName createdImage err,
               [ReadFromZipBuffer (projectName @ ''_creation_'' @ showNat now),
                CreateImage projectName tempProjectDirPath,
                RemoveDirectorySync tempDirPath,
                RunImage (projectName @ ''_creation_'' @ showNat now)
                  (imageName createdImage) cmd,
                SaveDockerImageWithDockerContainerHistory createdImage
                  \<lparr> dockerImage = createdImage, purpose = PROJECT_CREATION,
                    container =
                      containerResults\<lparr>output := Some (ProcessedOutput testOutput)\<rparr> \<rparr>,
                RemoveImage (imageName createdImage) True]))
       \<and> (\<forall>containerResults err.
            runImage env (projectName @ ''_creation_'' @ showNat now) (imageName createdImage) cmd
              = Inr containerResults
            \<and> statusCode containerResults \<noteq> PURPOSELY_STOPPED
            \<and> saveDockerImageWithDockerContainerHistory env createdImage
                \<lparr> dockerImage = createdImage, purpose = PROJECT_CREATION,
                  container = containerResults \<rparr> = Inl err \<longrightarrow>
            saveProject env cmd now projectName zipBuffer =
              (thrown projectName createdImage err,
               [ReadFromZipBuffer (projectName @ ''_creation_'' @ showNat now),
                CreateImage projectName tempProjectDirPath,
                RemoveDirectorySync tempDirPath,
                RunImage (projectName @ ''_creation_'' @ showNat now)
                  (imageName createdImage) cmd,
                SaveDockerImageWithDockerContainerHistory createdImage
                  \<lparr> dockerImage = createdImage, purpose = PROJECT_CREATION,
                    container = containerResults \<rparr>,
                RemoveImage (imageName createdImage) True]))"
proof -
  note after = saveProject_with_image [OF assms(2-4), of cmd]
  show ?thesis
  proof (intro conjI allI impI)
    fix err
    assume "runImage env (projectName @ ''_creation_'' @ showNat now)
        (imageName createdImage) cmd = Inl err"
    from after [OF saveProjectWithImage_run_failure [OF this]]
    show "saveProject env cmd now projectName zipBuffer =
              (thrown projectName createdImage err,
               [ReadFromZipBuffer (projectName @ ''_creation_'' @ showNat now),
                CreateImage projectName tempProjectDirPath,
                RemoveDirectorySync tempDirPath,
                RunImage (projectName @ ''_creation_'' @ showNat now)
                  (imageName createdImage) cmd,
                RemoveImage (imageName createdImage) True])"
      unfolding thrown_def by (simp only: append.simps)
  next
    fix containerResults err
    assume a: "runImage env (projectName @ ''_creation_'' @ showNat now)
          (imageName createdImage) cmd = Inr containerResults
        \<and> statusCode containerResults = PURPOSELY_STOPPED
        \<and> extractTestOutputFromGasSnapshot env (outputData (output containerResults))
            = Inl err"
    then have r: "runImage env (projectName @ ''_creation_'' @ showNat now)
          (imageName createdImage) cmd = Inr containerResults"
      and st: "statusCode containerResults = PURPOSELY_STOPPED"
      and p: "extractTestOutputFromGasSnapshot env (outputData (output containerResults))
            = Inl err"
      by simp_all
    from after [OF saveProjectWithImage_processing_failure [OF r st p]]
    show "saveProject env cmd now projectName zipBuffer =
              (thrown projectName createdImage
                 (handleError env err
                    (''An error occurred while retrieving the names of the tests for the ''
                       @ projectName @ '' project from the gas snapshot output.'')),
               [ReadFromZipBuffer (projectName @ ''_creation_'' @ showNat now),
                CreateImage projectName tempProjectDirPath,
                RemoveDirectorySync tempDirPath,
                RunImage (projectName @ ''_creation_'' @ showNat now)
                  (imageName createdImage) cmd,
                RemoveImage (imageName createdImage) True])"
      unfolding thrown_def by (simp only: append.simps)
  next
    fix containerResults testOutput err
    assume a: "runImage env (projectName @ ''_creation_'' @ showNat now)
          (imageName createdImage) cmd = Inr containerResults
        \<and> statusCode containerResults = PURPOSELY_STOPPED
        \<and> extractTestOutputFromGasSnapshot env (outputData (output containerResults))
            = Inr testOutput
        \<and> saveDockerImageWithDockerContainerHistory env createdImage
            \<lparr> dockerImage = createdImage, purpose = PROJECT_CREATION,
              container = containerResults\<lparr>output := Some (ProcessedOutput testOutput)\<rparr> \<rparr>
            = Inl err"
    then have r: "runImage env (projectName @ ''_creation_'' @ showNat now)
          (imageName createdImage) cmd = Inr containerResults"
      and st: "statusCode containerResults = PURPOSELY_STOPPED"
      and p: "extractTestOutputFromGasSnapshot env (outputData (output containerResults))
            = Inr testOutput"
      and sv: "saveDockerImageWithDockerContainerHistory env createdImage
            \<lparr> dockerImage = createdImage, purpose = PROJECT_CREATION,
              container = containerResults\<lparr>output := Some (ProcessedOutput testOutput)\<rparr> \<rparr>
            = Inl err"
      by simp_all
    from after [OF saveProjectWithImage_persistence_failure_processed [OF r st p sv]]
    show "saveProject env cmd now projectName zipBuffer =
              (thrown projectName createdImage err,
               [ReadFromZipBuffer (projectName @ ''_creation_'' @ showNat now),
                CreateImage projectName tempProjectDirPath,
                RemoveDirectorySync tempDirPath,
                RunImage (projectName @ ''_creation_'' @ showNat now)
                  (imageName createdImage) cmd,
                SaveDockerImageWithDockerContainerHistory createdImage
                  \<lparr> dockerImage = createdImage, purpose = PROJECT_CREATION,
                    container =
                      containerResults\<lparr>output := Some (ProcessedOutput testOutput)\<rparr> \<rparr>,
                RemoveImage (imageName createdImage) True])"
      unfolding thrown_def by (simp only: append.simps)
  next
    fix containerResults err
    assume a: "runImage env (projectName @ ''_creation_'' @ showNat now)
          (imageName createdImage) cmd = Inr containerResults
        \<and> statusCode containerResults \<noteq> PURPOSELY_STOPPED
        \<and> saveDockerImageWithDockerContainerHistory env createdImage
            \<lparr> dockerImage = createdImage, purpose = PROJECT_CREATION,
              container = containerResults \<rparr> = Inl err"
    then have r: "runImage env (projectName @ ''_creation_'' @ showNat now)
          (imageName createdImage) cmd = Inr containerResults"
      and st: "statusCode containerResults \<noteq> PURPOSELY_STOPPED"
      and sv: "saveDockerImageWithDockerContainerHistory env createdImage
            \<lparr> dockerImage = createdImage, purpose = PROJECT_CREATION,
              container = containerResults \<rparr> = Inl err"
      by simp_all
    from after [OF saveProjectWithImage_persistence_failure_unprocessed [OF r st sv]]
    show "saveProject env cmd now projectName zipBuffer =
              (thrown projectName createdImage err,
               [ReadFromZipBuffer (projectName @ ''_creation_'' @ showNat now),
                CreateImage projectName tempProjectDirPath,
                RemoveDirectorySync tempDirPath,
                RunImage (projectName @ ''_creation_'' @ showNat now)
                  (imageName createdImage) cmd,
                SaveDockerImageWithDockerContainerHistory createdImage
                  \<lparr> dockerImage = createdImage, purpose = PROJECT_CREATION,
                    container = containerResults \<rparr>,
                RemoveImage (imageName createdImage) True])"
      unfolding thrown_def by (simp only: append.simps)
  qed
qed

theorem saveProject_failure_removes_image_witness:
  "saveProject
     (exampleAdapters
        \<lparr> statusCode = PURPOSELY_STOPPED,
          output = Some (UnprocessedOutput (Some ''A:testFoo() (gas: 100)'')) \<rparr>
        (Inl ''database unreachable''))
     ''forge snapshot'' 1700000000123 ''token'' [80, 75]
   = (Inl ''An error occurred while creating the token project. database unreachable'',
      [ReadFromZipBuffer ''token_creation_1700000000123'',
       CreateImage ''token'' ''/tmp/a/project'',
       RemoveDirectorySync ''/tmp/a'',
       RunImage ''token_creation_1700000000123'' ''token'' ''forge snapshot'',
       SaveDockerImageWithDockerContainerHistory
         \<lparr> imageName = ''token'', imageID = ''sha256:1'' \<rparr>
         \<lparr> dockerImage = \<lparr> imageName = ''token'', imageID = ''sha256:1'' \<rparr>,
           purpose = PROJECT_CREATION,
           container = \<lparr> statusCode = PURPOSELY_STOPPED,
                         output = Some (ProcessedOutput \<lparr> overall = None, tests = None \<rparr>) \<rparr> \<rparr>,
       RemoveImage ''token'' True])
   \<and> saveProject
     ((exampleAdapters \<lparr> statusCode = PURPOSELY_STOPPED, output = None \<rparr> (Inr True))
        \<lparr> runImage := (\<lambda>execName imageName cmd. Inl ''the engine is down'') \<rparr>)
     ''forge snapshot'' 1700000000123 ''token'' [80, 75]
   = (Inl ''An error occurred while creating the token project. the engine is down'',
      [ReadFromZipBuffer ''token_creation_1700000000123'',
       CreateImage ''token'' ''/tmp/a/project'',
       RemoveDirectorySync ''/tmp/a'',
       RunImage ''token_creation_1700000000123'' ''token'' ''forge snapshot'',
       RemoveImage ''token'' True])"
proof -
  have n: "showNat 1700000000123 = ''1700000000123''"
    by (simp add: showNat.simps)
  let ?results = "\<lparr> statusCode = PURPOSELY_STOPPED,
          output = Some (UnprocessedOutput (Some ''A:testFoo() (gas: 100)'')) \<rparr>"
  let ?image = "\<lparr> imageName = ''token'', imageID = ''sha256:1'' \<rparr>"
  let ?env1 = "exampleAdapters ?results (Inl ''database unreachable'')"
  let ?env2 = "(exampleAdapters \<lparr> statusCode = PURPOSELY_STOPPED, output = None \<rparr> (Inr True))
        \<lparr> runImage := (\<lambda>execName imageName cmd. Inl ''the engine is down'') \<rparr>"
  note th1 = saveProject_failure_removes_image
    [where env = ?env1 and projectName = "''token''" and now = 1700000000123
       and zipBuffer = "[80, 75]" and tempDirPath = "''/tmp/a''"
       and tempProjectDirPath = "''/tmp/a/project''" and createdImage = ?image
       and cmd = "''forge snapshot''"]
  have c1: "(\<forall>containerResults testOutput err.
        runImage ?env1 (''token'' @ ''_creation_'' @ showNat 1700000000123)
          (imageName ?image) ''forge snapshot'' = Inr containerResults
        \<and> statusCode containerResults = PURPOSELY_STOPPED
        \<and> extractTestOutputFromGasSnapshot ?env1 (outputData (output containerResults))
            = Inr testOutput
        \<and> saveDockerImageWithDockerContainerHistory ?env1 ?image
            \<lparr> dockerImage = ?image, purpose = PROJECT_CREATION,
              container = containerResults\<lparr>output := Some (ProcessedOutput testOutput)\<rparr> \<rparr>
            = Inl err \<longrightarrow>
        saveProject ?env1 ''forge snapshot'' 1700000000123 ''token'' [80, 75] =
          ((case removeImage ?env1 (imageName ?image) True of
              None \<Rightarrow> Inl (handleError ?env1 err
                        (''An error occurred while creating the '' @ ''token'' @ '' project.''))
            | Some removalErr \<Rightarrow> Inl removalErr),
           [ReadFromZipBuffer (''token'' @ ''_creation_'' @ showNat 1700000000123),
            CreateImage ''token'' ''/tmp/a/project'',
            RemoveDirectorySync ''/tmp/a'',
            RunImage (''token'' @ ''_creation_'' @ showNat 1700000000123)
              (imageName ?image) ''forge snapshot'',
            SaveDockerImageWithDockerContainerHistory ?image
              \<lparr> dockerImage = ?image, purpose = PROJECT_CREATION,
                container =
                  containerResults\<lparr>output := Some (ProcessedOutput testOutput)\<rparr> \<rparr>,
            RemoveImage (imageName ?image) True]))"
    using th1 by (simp add: exampleAdapters_def)
  have 1: "saveProject ?env1 ''forge snapshot'' 1700000000123 ''token'' [80, 75]
   = (Inl ''An error occurred while creating the token project. database unreachable'',
      [ReadFromZipBuffer ''token_creation_1700000000123'',
       CreateImage ''token'' ''/tmp/a/project'',
       RemoveDirectorySync ''/tmp/a'',
       RunImage ''token_creation_1700000000123'' ''token'' ''forge snapshot'',
       SaveDockerImageWithDockerContainerHistory ?image
         \<lparr> dockerImage = ?image, purpose = PROJECT_CREATION,
           container = \<lparr> statusCode = PURPOSELY_STOPPED,
                         output = Some (ProcessedOutput \<lparr> overall = None, tests = None \<rparr>) \<rparr> \<rparr>,
       RemoveImage ''token'' True])"
    using c1 [THEN spec, of ?results, THEN spec, of "\<lparr> overall = None, tests = None \<rparr>",
        THEN spec, of "''database unreachable''"]
    by (simp add: exampleAdapters_def n)
  note th2 = saveProject_failure_removes_image
    [where env = ?env2 and projectName = "''token''" and now = 1700000000123
       and zipBuffer = "[80, 75]" and tempDirPath = "''/tmp/a''"
       and tempProjectDirPath = "''/tmp/a/project''" and createdImage = ?image
       and cmd = "''forge snapshot''"]
  have c2: "(\<forall>err.
        runImage ?env2 (''token'' @ ''_creation_'' @ showNat 1700000000123)
          (imageName ?image) ''forge snapshot'' = Inl err \<longrightarrow>
        saveProject ?env2 ''forge snapshot'' 1700000000123 ''token'' [80, 75] =
          ((case removeImage ?env2 (imageName ?image) True of
              None \<Rightarrow> Inl (handleError ?env2 err
                        (''An error occurred while creating the '' @ ''token'' @ '' project.''))
            | Some removalErr \<Rightarrow> Inl removalErr),
           [ReadFromZipBuffer (''token'' @ ''_creation_'' @ showNat 1700000000123),
            CreateImage ''token'' ''/tmp/a/project'',
            RemoveDirectorySync ''/tmp/a'',
            RunImage (''token'' @ ''_creation_'' @ showNat 1700000000123)
              (imageName ?image) ''forge snapshot'',
            RemoveImage (imageName ?image) True]))"
    using th2 by (simp add: exampleAdapters_def)
  have 2: "saveProject ?env2 ''forge snapshot'' 1700000000123 ''token'' [80, 75]
   = (Inl ''An error occurred while creating the token project. the engine is down'',
      [ReadFromZipBuffer ''token_creation_1700000000123'',
       CreateImage ''token'' ''/tmp/a/project'',
       RemoveDirectorySync ''/tmp/a'',
       RunImage ''token_creation_1700000000123'' ''token'' ''forge snapshot'',
       RemoveImage ''token'' True])"
    using c2 [THEN spec, of "''the engine is down''"]
    by (simp add: exampleAdapters_def n)
  from 1 2 show ?thesis by (rule conjI)
qed

text \<open>
  Where the code leaves claim C7.  In the first run the image is built and the clean-up
  of the temporary directory then throws; in the second \<^verbatim>\<open>createImage\<close> itself throws.  In
  both, \<^verbatim>\<open>dockerImage\<close> is still \<^verbatim>\<open>null\<close> in the \<^verbatim>\<open>catch\<close> block: \<^verbatim>\<open>saveProject\<close> throws and
  has called no \<^verbatim>\<open>removeImage\<close>.
\<close>

theorem saveProject_failure_counterexample:
  "saveProject
     ((exampleAdapters \<lparr> statusCode = PURPOSELY_STOPPED, output = None \<rparr> (Inr True))
        \<lparr> removeDirectorySync := (\<lambda>path. Some ''the directory is busy'') \<rparr>)
     ''forge snapshot'' 1700000000123 ''token'' [80, 75]
   = (Inl ''An error occurred while creating the token project. the directory is busy'',
      [ReadFromZipBuffer ''token_creation_1700000000123'',
       CreateImage ''token'' ''/tmp/a/project'',
       RemoveDirectorySync ''/tmp/a''])
   \<and> createImage
       ((exampleAdapters \<lparr> statusCode = PURPOSELY_STOPPED, output = None \<rparr> (Inr True))
          \<lparr> removeDirectorySync := (\<lambda>path. Some ''the directory is busy'') \<rparr>)
       ''token'' ''/tmp/a/project''
     = Inr \<lparr> imageName = ''token'', imageID = ''sha256:1'' \<rparr>
   \<and> saveProject
     ((exampleAdapters \<lparr> statusCode = PURPOSELY_STOPPED, output = None \<rparr> (Inr True))
        \<lparr> createImage := (\<lambda>projectName path. Inl ''the build failed'') \<rparr>)
     ''forge snapshot'' 1700000000123 ''token'' [80, 75]
   = (Inl ''An error occurred while creating the token project. the build failed'',
      [ReadFromZipBuffer ''token_creation_1700000000123'',
       CreateImage ''token'' ''/tmp/a/project'',
       RemoveDirectorySync ''/tmp/a''])"
proof -
  have n: "showNat 1700000000123 = ''1700000000123''"
    by (simp add: showNat.simps)
  show ?thesis
    by (simp add: saveProject_def saveProjectTry_def exampleAdapters_def n Let_def)
qed

subsection \<open>Processing the output of the discovery run\<close>




section \<open>Properties of the front service\<close>

subsection \<open>Executing a submission\<close>

text \<open>
  Claim C2, as the code has it.  When the runner has answered with a
  ContainerExecutionResponse, \<^verbatim>\<open>executeSubmission\<close> returns that response, unchanged, only
  if its status is \<^verbatim>\<open>SUCCESS\<close>; for every other status it throws the error that
  \<^verbatim>\<open>handleContainerError\<close> makes from the response.
\<close>

theorem executeSubmission_returns_only_success:
  assumes "\<forall>url execArgs. sendFormData url requestFile execArgs = Inr response"
  shows "executeSubmission endpoint sendFormData handleContainerError projectName
           requestFile config =
         (if status response = ContainerExecutionStatus.SUCCESS
          then Inr response
          else Inl (handleContainerError response))"
  using assms by (simp add: executeSubmission_def Let_def)

theorem executeSubmission_returns_only_success_witness:
  "executeSubmission (\<lambda>projectName. ''/projects/'' @ projectName @ ''/executions'')
     (\<lambda>url requestFile execArgs. Inr \<lparr> status = ContainerExecutionStatus.SUCCESS \<rparr>)
     (\<lambda>response. ''the container failed'') ''token'' ''src.zip''
     (Some \<lparr> containerTimeout = Some ''30'', testExecutionArguments = None \<rparr>)
   = Inr \<lparr> status = ContainerExecutionStatus.SUCCESS \<rparr>"
  using executeSubmission_returns_only_success
    [of "\<lambda>url requestFile execArgs. Inr \<lparr> status = ContainerExecutionStatus.SUCCESS \<rparr>"
        "''src.zip''" "\<lparr> status = ContainerExecutionStatus.SUCCESS \<rparr>"
        "\<lambda>projectName. ''/projects/'' @ projectName @ ''/executions''"
        "\<lambda>response. ''the container failed''" "''token''"
        "Some \<lparr> containerTimeout = Some ''30'', testExecutionArguments = None \<rparr>"]
  by simp

text \<open>
  Where the code leaves claim C2.  The runner answers with the status
  \<^verbatim>\<open>APPLICATION_ERROR\<close>, or \<^verbatim>\<open>TIMEOUT\<close>; the caller of \<^verbatim>\<open>executeSubmission\<close> gets no response
  but the thrown error.
\<close>

theorem executeSubmission_throws_counterexample:
  "executeSubmission (\<lambda>projectName. ''/projects/'' @ projectName @ ''/executions'')
     (\<lambda>url requestFile execArgs. Inr \<lparr> status = ContainerExecutionStatus.APPLICATION_ERROR \<rparr>)
     (\<lambda>response. ''the container failed'') ''token'' ''src.zip'' None
   = Inl ''the container failed''
   \<and> executeSubmission (\<lambda>projectName. ''/projects/'' @ projectName @ ''/executions'')
     (\<lambda>url requestFile execArgs. Inr \<lparr> status = ContainerExecutionStatus.TIMEOUT \<rparr>)
     (\<lambda>response. ''the container failed'') ''token'' ''src.zip'' None
   = Inl ''the container failed''"
  by (simp add: executeSubmission_def)

subsection \<open>Updating a message request\<close>

text \<open>
  Claim C8, as the code has it.  When the message request is in the collection,
  \<^verbatim>\<open>updateMessageRequest\<close> stores and returns the document found with \<^verbatim>\<open>completed\<close> set, with
  the reference and the type of the associated document, and with the starting position
  in the queue (zero when none is given).  With a response, the document carries the
  \<^verbatim>\<open>isError\<close> flag and the payload of the response; without one, both are \<^verbatim>\<open>undefined\<close>.  No
  other document of the collection changes.
\<close>

theorem updateMessageRequest_completes:
  assumes "db (messageRequestId messageRequest) = Some found"
  shows "\<exists>saved.
           updateMessageRequest db messageRequest documentId documentType response position
             = (Inr saved, db(messageRequestId found \<mapsto> saved))
         \<and> completed saved
         \<and> messageRequestId saved = messageRequestId found
         \<and> associatedDocumentId saved = Some documentId
         \<and> associatedDocumentType saved = Some documentType
         \<and> startingPositionInQueue saved = Some (case position of Some n \<Rightarrow> n | None \<Rightarrow> 0)
         \<and> (case response of
              Some (isErr, payload) \<Rightarrow>
                isError saved = Some isErr \<and> MessageRequest.output saved = Some payload
            | None \<Rightarrow> isError saved = None \<and> MessageRequest.output saved = None)"
  using assms
  by (cases response)
    (auto simp: updateMessageRequest_def findMessageRequest_def saveMessageRequest_def)

theorem updateMessageRequest_completes_witness:
  "fst (updateMessageRequest
          [''r1'' \<mapsto> \<lparr> messageRequestId = ''r1'', associatedDocumentId = None,
                       associatedDocumentType = None, startingPositionInQueue = None,
                       completed = False, isError = None, output = None \<rparr>]
          \<lparr> messageRequestId = ''r1'', associatedDocumentId = None,
            associatedDocumentType = None, startingPositionInQueue = None,
            completed = False, isError = None, output = None \<rparr>
          ''s1'' ''Submission'' (Some (True, ''the container failed'')) (Some 3))
   = Inr \<lparr> messageRequestId = ''r1'', associatedDocumentId = Some ''s1'',
           associatedDocumentType = Some ''Submission'', startingPositionInQueue = Some 3,
           completed = True, isError = Some True,
           output = Some ''the container failed'' \<rparr>"
proof -
  let ?pending = "\<lparr> messageRequestId = ''r1'', associatedDocumentId = None,
            associatedDocumentType = None, startingPositionInQueue = None,
            completed = False, isError = None,
            MessageRequest.output = (None :: string option) \<rparr>"
  have lookup: "[''r1'' \<mapsto> ?pending] (messageRequestId ?pending) = Some ?pending"
    by simp
  note th = updateMessageRequest_completes [of "[''r1'' \<mapsto> ?pending]" ?pending ?pending
      "''s1''" "''Submission''" "Some (True, ''the container failed'')" "Some 3"]
  from th [OF lookup] obtain saved where
    "updateMessageRequest [''r1'' \<mapsto> ?pending] ?pending ''s1'' ''Submission''
       (Some (True, ''the container failed'')) (Some 3)
       = (Inr saved, [''r1'' \<mapsto> ?pending](messageRequestId ?pending \<mapsto> saved))"
    "completed saved" "messageRequestId saved = messageRequestId ?pending"
    "associatedDocumentId saved = Some ''s1''"
    "associatedDocumentType saved = Some ''Submission''"
    "startingPositionInQueue saved = Some 3"
    "isError saved = Some True" "MessageRequest.output saved = Some ''the container failed''"
    by auto
  then show ?thesis by (cases saved) simp
qed

text \<open>
  Where the code leaves claim C8.  Updated without a response, the message request is
  completed and holds neither a response payload nor an error payload: \<^verbatim>\<open>isError\<close> and
  \<^verbatim>\<open>output\<close> are \<^verbatim>\<open>undefined\<close>.
\<close>

theorem updateMessageRequest_counterexample:
  "fst (updateMessageRequest
          [''r1'' \<mapsto> \<lparr> messageRequestId = ''r1'', associatedDocumentId = None,
                       associatedDocumentType = None, startingPositionInQueue = None,
                       completed = False, isError = None,
                       output = (None :: string option) \<rparr>]
          \<lparr> messageRequestId = ''r1'', associatedDocumentId = None,
            associatedDocumentType = None, startingPositionInQueue = None,
            completed = False, isError = None, output = None \<rparr>
          ''s1'' ''Submission'' None None)
   = Inr \<lparr> messageRequestId = ''r1'', associatedDocumentId = Some ''s1'',
           associatedDocumentType = Some ''Submission'', startingPositionInQueue = Some 0,
           completed = True, isError = None, output = None \<rparr>"
  by (simp add: updateMessageRequest_def findMessageRequest_def saveMessageRequest_def)

subsection \<open>The file of a request\<close>

text \<open>
  Claim C10.  Let \<^verbatim>\<open>errorUtils.handleError\<close> give the error it returns the status code it is
  given.  For a request without a file, and for a request whose file has no buffer,
  \<^verbatim>\<open>getRequestFile\<close> throws an \<^verbatim>\<open>AppError\<close> with the status 400, and \<^verbatim>\<open>sendErrorResponse\<close>
  answers it with 400; for a request whose file has a buffer it returns the file as it
  is.
\<close>

theorem getRequestFile_bad_request:
  assumes "\<forall>err text code. AppError.statusCode (handleErr err text code) = code"
  shows "(case file req of
            None \<Rightarrow>
              (\<exists>appError. getRequestFile handleErr req = Inl appError
                 \<and> AppError.statusCode appError = 400
                 \<and> fst (sendErrorResponse (Inr appError)) = 400)
          | Some requestFile \<Rightarrow>
              (case buffer requestFile of
                 None \<Rightarrow>
                   (\<exists>appError. getRequestFile handleErr req = Inl appError
                      \<and> AppError.statusCode appError = 400
                      \<and> fst (sendErrorResponse (Inr appError)) = 400)
               | Some bytes \<Rightarrow> getRequestFile handleErr req = Inr requestFile))"
  using assms
  by (simp add: getRequestFile_def sendErrorResponse_def BadRequest_def
      split: option.splits)

theorem getRequestFile_bad_request_witness:
  "getRequestFile (\<lambda>err text code. AppError code text) \<lparr> file = None \<rparr>
     = Inl (AppError 400 ''An error occurred while reading the file buffer.'')
   \<and> getRequestFile (\<lambda>err text code. AppError code text)
       \<lparr> file = Some \<lparr> originalname = ''src.zip'', buffer = None \<rparr> \<rparr>
     = Inl (AppError 400 ''An error occurred while reading the file buffer.'')
   \<and> getRequestFile (\<lambda>err text code. AppError code text)
       \<lparr> file = Some \<lparr> originalname = ''src.zip'', buffer = Some [80, 75, 3, 4] \<rparr> \<rparr>
     = Inr \<lparr> originalname = ''src.zip'', buffer = Some [80, 75, 3, 4] \<rparr>"
proof -
  let ?handleErr = "\<lambda>(err :: JsError) (text :: string) code. AppError code text"
  have h: "\<forall>err text code. AppError.statusCode (?handleErr err text code) = code"
    by simp
  have shape: "getRequestFile ?handleErr req = Inl appError \<Longrightarrow>
      AppError.statusCode appError = 400 \<Longrightarrow>
      getRequestFile ?handleErr req
        = Inl (AppError 400 ''An error occurred while reading the file buffer.'')"
    for req appError
    by (cases appError)
      (auto simp: getRequestFile_def split: option.splits sum.splits)
  from getRequestFile_bad_request [OF h, of "\<lparr> file = None \<rparr>"]
  have 1: "getRequestFile ?handleErr \<lparr> file = None \<rparr>
     = Inl (AppError 400 ''An error occurred while reading the file buffer.'')"
    using shape by auto
  from getRequestFile_bad_request [OF h,
      of "\<lparr> file = Some \<lparr> originalname = ''src.zip'', buffer = None \<rparr> \<rparr>"]
  have 2: "getRequestFile ?handleErr
       \<lparr> file = Some \<lparr> originalname = ''src.zip'', buffer = None \<rparr> \<rparr>
     = Inl (AppError 400 ''An error occurred while reading the file buffer.'')"
    using shape by auto
  from getRequestFile_bad_request [OF h,
      of "\<lparr> file = Some \<lparr> originalname = ''src.zip'', buffer = Some [80, 75, 3, 4] \<rparr> \<rparr>"]
  have 3: "getRequestFile ?handleErr
       \<lparr> file = Some \<lparr> originalname = ''src.zip'', buffer = Some [80, 75, 3, 4] \<rparr> \<rparr>
     = Inr \<lparr> originalname = ''src.zip'', buffer = Some [80, 75, 3, 4] \<rparr>"
    by simp
  from 1 2 3 show ?thesis by simp
qed

end
